theory Spec2Isabelle
  imports Complex_Main
begin

section \<open>Python values shared by both integrations\<close>

text \<open>
  Exceptions are values. Only subclasses of Python's \<open>Exception\<close> are modelled; every
  class that is none of the three named ones is \<open>OtherException\<close>.
\<close>

datatype exn = RuntimeError | KeyError | AttributeError | OtherException

text \<open>
  Numbers read from the sensor and the configured offsets are Python floats. A float is
  modelled by the rational it denotes. \<open>round(x, 1)\<close> rounds that value to one decimal,
  with ties going to the even digit, and returns the float nearest to this decimal; the
  model keeps the decimal itself, which is what the state displays. The sum of two floats
  is again a float, in general not the exact sum of the two values; which float it is,
  is not modelled: float addition is a parameter \<open>float_add\<close> of every function that adds.
\<close>

definition py_round1 :: "rat \<Rightarrow> rat" where
  "py_round1 x =
     (let y = x * 10; f = \<lfloor>y\<rfloor>; d = y - of_int f
      in of_int (if d < 1 / 2 then f
                 else if 1 / 2 < d then f + 1
                 else if even f then f else f + 1) / 10)"

section \<open>DHT temperature and humidity sensor\<close>

subsection \<open>Constants\<close>

text \<open>Times are microseconds, the resolution of \<open>datetime\<close>; the interval is 30 seconds.\<close>

definition MIN_TIME_BETWEEN_UPDATES :: int where
  "MIN_TIME_BETWEEN_UPDATES = 30 * 1000000"

definition SENSOR_TEMPERATURE :: string where
  "SENSOR_TEMPERATURE = ''temperature''"

definition SENSOR_HUMIDITY :: string where
  "SENSOR_HUMIDITY = ''humidity''"

datatype unit_of_measure = TEMP_CELSIUS | TEMP_FAHRENHEIT | PERCENTAGE

text \<open>
  \<open>SENSOR_TYPES\<close> is a module-level dictionary from the metric to a two-element list
  (display name, unit). Its only mutable slot is the unit of the temperature entry, which
  starts as \<open>None\<close> and is overwritten by \<open>setup_platform\<close>; the dictionary is therefore a
  function of that slot.
\<close>

definition SENSOR_TYPES :: "unit_of_measure option \<Rightarrow> string \<rightharpoonup> string \<times> unit_of_measure option" where
  "SENSOR_TYPES temperature_unit =
     [SENSOR_TEMPERATURE \<mapsto> (''Temperature'', temperature_unit),
      SENSOR_HUMIDITY \<mapsto> (''Humidity'', Some PERCENTAGE)]"

datatype sensor_kind = DHT11 | DHT22

definition available_sensors :: "string \<rightharpoonup> sensor_kind" where
  "available_sensors =
     [''AM2302'' \<mapsto> DHT22, ''DHT11'' \<mapsto> DHT11, ''DHT22'' \<mapsto> DHT22]"

subsection \<open>The hardware and what a call does to it\<close>

text \<open>
  What the sensor library does during one call of \<open>DHTClient.update\<close>: constructing the
  handle for the pin may raise, each of the two property reads either raises or
  returns a number or \<open>None\<close>, and releasing the handle with \<open>exit\<close> may raise.
\<close>

record dht_device =
  dev_open :: "exn option"
  dev_humidity :: "exn + rat option"
  dev_temperature :: "exn + rat option"
  dev_exit :: "exn option"

datatype event =
    Open sensor_kind nat
  | ReadHumidity
  | ReadTemperature
  | Exit
  | LogDebug string
  | LogException string
  | LogError string
  | LogTemperature rat rat
  | LogHumidity rat rat

subsection \<open>DHTClient\<close>

text \<open>
  \<open>last_update\<close> is the time stamp the \<open>Throttle\<close> decorator keeps on the client object.
\<close>

record DHTClient =
  sensor :: sensor_kind
  pin :: nat
  data :: "string \<rightharpoonup> rat"
  name :: string
  last_update :: "int option"

text \<open>\<open>getattr(board, pin)\<close> raises \<open>AttributeError\<close> for a name the board does not have.\<close>

definition DHTClient_init :: "(string \<rightharpoonup> nat) \<Rightarrow> sensor_kind \<Rightarrow> string \<Rightarrow> string \<Rightarrow> exn + DHTClient" where
  "DHTClient_init board sensor_cls pin_name nm =
     (case board pin_name of
        None \<Rightarrow> Inl AttributeError
      | Some p \<Rightarrow> Inr \<lparr>sensor = sensor_cls, pin = p, data = Map.empty, name = nm,
                       last_update = None\<rparr>)"

text \<open>\<open>if reading: data[key] = reading\<close>: \<open>None\<close> and zero are falsy.\<close>

definition store_if_truthy :: "string \<Rightarrow> rat option \<Rightarrow> (string \<rightharpoonup> rat) \<Rightarrow> (string \<rightharpoonup> rat)" where
  "store_if_truthy key reading d =
     (case reading of
        None \<Rightarrow> d
      | Some v \<Rightarrow> if v \<noteq> 0 then d(key \<mapsto> v) else d)"

text \<open>The body of the \<open>try\<close> block: humidity is read first, both stores follow both reads.\<close>

definition read_and_store :: "dht_device \<Rightarrow> (string \<rightharpoonup> rat) \<Rightarrow> (exn + (string \<rightharpoonup> rat)) \<times> event list" where
  "read_and_store dev d =
     (case dev_humidity dev of
        Inl e \<Rightarrow> (Inl e, [ReadHumidity])
      | Inr humidity \<Rightarrow>
          (case dev_temperature dev of
             Inl e \<Rightarrow> (Inl e, [ReadHumidity, ReadTemperature])
           | Inr temperature \<Rightarrow>
               (Inr (store_if_truthy SENSOR_HUMIDITY humidity
                       (store_if_truthy SENSOR_TEMPERATURE temperature d)),
                [ReadHumidity, ReadTemperature])))"

text \<open>
  The undecorated method. The handle is constructed before the \<open>try\<close>, so an exception
  raised there leaves the method; inside the \<open>try\<close>, \<open>RuntimeError\<close> is logged at debug
  level, anything else with \<open>_LOGGER.exception\<close>, and \<open>finally\<close> calls \<open>dht.exit()\<close>.
  An exception raised by \<open>exit\<close> leaves the method as well, after the data were stored.
  The result is the exception that leaves the method (if any), the client and the events.
\<close>

definition DHTClient_update_method :: "dht_device \<Rightarrow> DHTClient \<Rightarrow> exn option \<times> DHTClient \<times> event list" where
  "DHTClient_update_method dev c =
     (case dev_open dev of
        Some e \<Rightarrow> (Some e, c, [Open (sensor c) (pin c)])
      | None \<Rightarrow>
          (case read_and_store dev (data c) of
             (Inr d', evs) \<Rightarrow>
               (dev_exit dev, c\<lparr>data := d'\<rparr>, Open (sensor c) (pin c) # evs @ [Exit])
           | (Inl e, evs) \<Rightarrow>
               (dev_exit dev, c,
                Open (sensor c) (pin c) # evs @
                [if e = RuntimeError
                 then LogDebug (''Unexpected value from DHT sensor: '' @ name c)
                 else LogException (''Error updating DHT sensor: '' @ name c),
                 Exit])))"

text \<open>
  Modelled from the spec: the \<open>Throttle\<close> decorator of \<open>homeassistant.util\<close>, a
  minimum-interval rate limiter around a side-effecting call. The wrapped method runs when
  it has not run before or when more than the interval has passed since its last
  completed run; otherwise the call returns \<open>None\<close> at once and does nothing. The time of
  a run is recorded when the method returns; a run that raises records nothing.
\<close>

definition throttle_open :: "int \<Rightarrow> int \<Rightarrow> int option \<Rightarrow> bool" where
  "throttle_open min_time now previous =
     (case previous of None \<Rightarrow> True | Some t \<Rightarrow> min_time < now - t)"

definition DHTClient_update :: "int \<Rightarrow> dht_device \<Rightarrow> DHTClient \<Rightarrow> exn option \<times> DHTClient \<times> event list" where
  "DHTClient_update now dev c =
     (if throttle_open MIN_TIME_BETWEEN_UPDATES now (last_update c)
      then (case DHTClient_update_method dev c of
              (None, c', evs) \<Rightarrow> (None, c'\<lparr>last_update := Some now\<rparr>, evs)
            | (Some e, c', evs) \<Rightarrow> (Some e, c', evs))
      else (None, c, []))"

subsection \<open>DHTSensor\<close>

text \<open>
  The entity. Its \<open>dht_client\<close> field is a reference to a client shared with the other
  entities of the platform, so the client is passed to \<open>update\<close> and returned by it.
\<close>

record DHTSensor =
  client_name :: string
  sensor_name :: string
  temp_unit :: "unit_of_measure option"
  sensor_type :: string
  temperature_offset :: rat
  humidity_offset :: rat
  state :: "rat option"
  unit_of_measurement :: "unit_of_measure option"

text \<open>\<open>None\<close> stands for the \<open>KeyError\<close> of \<open>SENSOR_TYPES[sensor_type]\<close>.\<close>

definition DHTSensor_init ::
  "(string \<rightharpoonup> string \<times> unit_of_measure option) \<Rightarrow> string \<Rightarrow> unit_of_measure option \<Rightarrow> string \<Rightarrow>
   rat \<Rightarrow> rat \<Rightarrow> DHTSensor option" where
  "DHTSensor_init types stype tunit nm toff hoff =
     (case types stype of
        None \<Rightarrow> None
      | Some (label, u) \<Rightarrow>
          Some \<lparr>client_name = nm, sensor_name = label, temp_unit = tunit,
                sensor_type = stype, temperature_offset = toff, humidity_offset = hoff,
                state = None, unit_of_measurement = u\<rparr>)"

text \<open>
  \<open>celsius_to_fahrenheit\<close> lives in \<open>homeassistant.util.temperature\<close>; it is a parameter
  of the model, as is the addition of two floats.
\<close>

definition update_temperature ::
  "(rat \<Rightarrow> rat \<Rightarrow> rat) \<Rightarrow> (rat \<Rightarrow> rat) \<Rightarrow> rat \<Rightarrow> DHTSensor \<Rightarrow> DHTSensor" where
  "update_temperature float_add celsius_to_fahrenheit temperature s =
     (if - 20 \<le> temperature \<and> temperature < 80
      then (let s1 = s\<lparr>state := Some (py_round1
                                        (float_add temperature (temperature_offset s)))\<rparr>
            in if temp_unit s1 = Some TEMP_FAHRENHEIT
               then s1\<lparr>state := Some (py_round1 (celsius_to_fahrenheit temperature))\<rparr>
               else s1)
      else s)"

definition update_humidity :: "(rat \<Rightarrow> rat \<Rightarrow> rat) \<Rightarrow> rat \<Rightarrow> DHTSensor \<Rightarrow> DHTSensor" where
  "update_humidity float_add humidity s =
     (if 0 \<le> humidity \<and> humidity \<le> 100
      then s\<lparr>state := Some (py_round1 (float_add humidity (humidity_offset s)))\<rparr>
      else s)"

definition DHTSensor_update ::
  "(rat \<Rightarrow> rat \<Rightarrow> rat) \<Rightarrow> (rat \<Rightarrow> rat) \<Rightarrow> int \<Rightarrow> dht_device \<Rightarrow> DHTSensor \<Rightarrow> DHTClient \<Rightarrow>
   exn option \<times> DHTSensor \<times> DHTClient \<times> event list" where
  "DHTSensor_update float_add celsius_to_fahrenheit now dev s c =
     (case DHTClient_update now dev c of
        (Some e, c', evs) \<Rightarrow> (Some e, s, c', evs)
      | (None, c', evs) \<Rightarrow>
          (case (if sensor_type s = SENSOR_TEMPERATURE then data c' SENSOR_TEMPERATURE else None) of
             Some temperature \<Rightarrow>
               (None, update_temperature float_add celsius_to_fahrenheit temperature s, c',
                evs @ [LogTemperature temperature (temperature_offset s)])
           | None \<Rightarrow>
               (case (if sensor_type s = SENSOR_HUMIDITY then data c' SENSOR_HUMIDITY else None) of
                  Some humidity \<Rightarrow>
                    (None, update_humidity float_add humidity s, c',
                     evs @ [LogHumidity humidity (humidity_offset s)])
                | None \<Rightarrow> (None, s, c', evs))))"

subsection \<open>Platform schema and setup_platform\<close>

text \<open>
  A configuration value as the YAML loader delivers it, as far as the monitored
  conditions need it.
\<close>

datatype raw = RNone | RStr string | RInt int | RList "raw list"

text \<open>
  Modelled from the spec: the validators \<open>cv.ensure_list\<close> and \<open>vol.In\<close> that
  \<open>PLATFORM_SCHEMA\<close> applies to the monitored conditions, which must be a subset of
  the metrics. \<open>ensure_list\<close> turns \<open>None\<close> into the empty list and wraps a value that is
  no list; \<open>vol.In(SENSOR_TYPES)\<close> accepts a value that is a key of the dictionary, and
  the one-element list schema applies it to every element.
\<close>

definition ensure_list :: "raw \<Rightarrow> raw list" where
  "ensure_list v = (case v of RNone \<Rightarrow> [] | RList xs \<Rightarrow> xs | _ \<Rightarrow> [v])"

definition vol_In :: "(string \<rightharpoonup> 'a) \<Rightarrow> raw \<Rightarrow> string option" where
  "vol_In container v =
     (case v of
        RStr s \<Rightarrow> if container s \<noteq> None then Some s else None
      | _ \<Rightarrow> None)"

fun validate_each :: "(raw \<Rightarrow> string option) \<Rightarrow> raw list \<Rightarrow> string list option" where
  "validate_each validator [] = Some []"
| "validate_each validator (v # vs) =
     (case validator v of
        None \<Rightarrow> None
      | Some s \<Rightarrow> (case validate_each validator vs of
                     None \<Rightarrow> None
                   | Some ss \<Rightarrow> Some (s # ss)))"

definition in_range :: "rat \<Rightarrow> bool" where
  "in_range x = (- 100 \<le> x \<and> x \<le> 100)"

text \<open>
  The configuration before validation. The string and float coercions of the other keys
  (\<open>cv.string\<close>, \<open>vol.Coerce(float)\<close>, the pin normaliser) are taken as done: a field is
  \<open>None\<close> when its key is absent.
\<close>

record raw_config =
  raw_sensor :: "string option"
  raw_pin :: "string option"
  raw_monitored_conditions :: "raw option"
  raw_name :: "string option"
  raw_temperature_offset :: "rat option"
  raw_humidity_offset :: "rat option"

record config =
  CONF_SENSOR :: string
  CONF_PIN :: string
  CONF_MONITORED_CONDITIONS :: "string list"
  CONF_NAME :: string
  CONF_TEMPERATURE_OFFSET :: rat
  CONF_HUMIDITY_OFFSET :: rat

definition DEFAULT_NAME :: string where
  "DEFAULT_NAME = ''DHT Sensor''"

definition with_default :: "'a \<Rightarrow> 'a option \<Rightarrow> 'a" where
  "with_default d v = (case v of None \<Rightarrow> d | Some x \<Rightarrow> x)"

definition PLATFORM_SCHEMA :: "raw_config \<Rightarrow> config option" where
  "PLATFORM_SCHEMA rc =
     (case raw_sensor rc of
        None \<Rightarrow> None
      | Some sens \<Rightarrow>
     (case raw_pin rc of
        None \<Rightarrow> None
      | Some p \<Rightarrow>
     (case validate_each (vol_In (SENSOR_TYPES None))
             (ensure_list (with_default (RList []) (raw_monitored_conditions rc))) of
        None \<Rightarrow> None
      | Some conds \<Rightarrow>
          (let toff = with_default 0 (raw_temperature_offset rc);
               hoff = with_default 0 (raw_humidity_offset rc)
           in if in_range toff \<and> in_range hoff
              then Some \<lparr>CONF_SENSOR = sens, CONF_PIN = p,
                         CONF_MONITORED_CONDITIONS = conds,
                         CONF_NAME = with_default DEFAULT_NAME (raw_name rc),
                         CONF_TEMPERATURE_OFFSET = toff, CONF_HUMIDITY_OFFSET = hoff\<rparr>
              else None))))"

text \<open>
  The loop of \<open>setup_platform\<close> inside \<open>try ... except KeyError: pass\<close>: a \<open>KeyError\<close>
  (from \<open>SENSOR_TYPES[variable]\<close> in the argument list or in the constructor) ends the
  loop and keeps the sensors appended so far. The flag tells whether the handler ran.
\<close>

fun build_sensors ::
  "(string \<rightharpoonup> string \<times> unit_of_measure option) \<Rightarrow> string \<Rightarrow> rat \<Rightarrow> rat \<Rightarrow> string list \<Rightarrow>
   DHTSensor list \<times> bool" where
  "build_sensors types nm toff hoff [] = ([], False)"
| "build_sensors types nm toff hoff (variable # rest) =
     (case types variable of
        None \<Rightarrow> ([], True)
      | Some (label, u) \<Rightarrow>
          (case DHTSensor_init types variable u nm toff hoff of
             None \<Rightarrow> ([], True)
           | Some s \<Rightarrow>
               (case build_sensors types nm toff hoff rest of
                  (dev, caught) \<Rightarrow> (s # dev, caught))))"

text \<open>
  What a call of \<open>setup_platform\<close> that does not raise has done: the value returned
  (\<open>Some False\<close>, or \<open>None\<close> when the function falls off its end), the client created, the
  list handed to \<open>add_entities\<close> (if it was called), whether the \<open>KeyError\<close> handler ran,
  and the log.
\<close>

record setup_result =
  returned :: "bool option"
  client :: "DHTClient option"
  added :: "DHTSensor list option"
  key_error_caught :: bool
  setup_log :: "event list"

definition setup_platform ::
  "(string \<rightharpoonup> nat) \<Rightarrow> unit_of_measure \<Rightarrow> config \<Rightarrow> exn + setup_result" where
  "setup_platform board temperature_unit cfg =
     (let types = SENSOR_TYPES (Some temperature_unit)
      in case available_sensors (CONF_SENSOR cfg) of
           None \<Rightarrow>
             Inr \<lparr>returned = Some False, client = None, added = None,
                  key_error_caught = False,
                  setup_log = [LogError ''DHT sensor type is not supported'']\<rparr>
         | Some sens \<Rightarrow>
             (case DHTClient_init board sens (CONF_PIN cfg) (CONF_NAME cfg) of
                Inl e \<Rightarrow> Inl e
              | Inr c \<Rightarrow>
                  (case build_sensors types (CONF_NAME cfg) (CONF_TEMPERATURE_OFFSET cfg)
                          (CONF_HUMIDITY_OFFSET cfg) (CONF_MONITORED_CONDITIONS cfg) of
                     (dev, caught) \<Rightarrow>
                       Inr \<lparr>returned = None, client = Some c, added = Some dev,
                            key_error_caught = caught, setup_log = []\<rparr>)))"

section \<open>TP-Link smart home devices\<close>

text \<open>
  Devices are known by their host. \<open>SmartDevices\<close>, \<open>get_static_devices\<close> and
  \<open>async_discover_devices\<close> belong to \<open>common.py\<close>; what the two functions return is a
  parameter of the model.
\<close>

record SmartDevices =
  lights :: "string list"
  switches :: "string list"

text \<open>
  \<open>config_entry.data\<close> is \<open>None\<close> or a dictionary; a field is \<open>None\<close> when its key is
  missing, and reading it then raises \<open>KeyError\<close>.
\<close>

record entry_data =
  ed_retry_delay :: "int option"
  ed_retry_max_attempts :: "int option"
  ed_discovery :: "bool option"

text \<open>
  \<open>hass.data[DOMAIN]\<close>, a dictionary with the keys \<open>ATTR_CONFIG\<close>, \<open>CONF_LIGHT\<close>,
  \<open>CONF_SWITCH\<close>, \<open>CONF_RETRY_DELAY\<close>, \<open>CONF_RETRY_MAX_ATTEMPTS\<close> and \<open>add_attempt\<close>;
  a field is \<open>None\<close> when the key is absent. The YAML configuration stored under
  \<open>ATTR_CONFIG\<close> may itself be \<open>None\<close>. \<open>hass.data\<close> as a whole is \<open>None\<close> when it has no
  entry for the domain.
\<close>

record domain_state =
  ATTR_CONFIG :: "string option option"
  CONF_LIGHT :: "string list option"
  CONF_SWITCH :: "string list option"
  CONF_RETRY_DELAY :: "int option"
  CONF_RETRY_MAX_ATTEMPTS :: "int option"
  add_attempt :: "int option"

definition cleared :: domain_state where
  "cleared = \<lparr>ATTR_CONFIG = None, CONF_LIGHT = None, CONF_SWITCH = None,
              CONF_RETRY_DELAY = None, CONF_RETRY_MAX_ATTEMPTS = None, add_attempt = None\<rparr>"

text \<open>
  \<open>async_setup\<close> replaces the domain's dictionary by one that holds the configuration
  only, starts the import flow when there is a configuration, and returns \<open>True\<close>.
\<close>

definition async_setup :: "string option \<Rightarrow> domain_state option \<times> bool \<times> bool" where
  "async_setup conf = (Some (cleared\<lparr>ATTR_CONFIG := Some conf\<rparr>), conf \<noteq> None, True)"

text \<open>
  \<open>async_setup_entry\<close>. The local names \<open>lights\<close> and \<open>switches\<close> are the very lists stored
  in the dictionary, so extending them changes the stored state. The function returns the
  exception it raises or its value, the state it leaves behind (also when it raises), and
  the platforms whose setup it forwards.
\<close>

definition async_setup_entry ::
  "SmartDevices \<Rightarrow> SmartDevices \<Rightarrow> entry_data option \<Rightarrow> domain_state option \<Rightarrow>
   (exn + bool) \<times> domain_state option \<times> string list" where
  "async_setup_entry static_devices discovered_devices config_data hass =
     (case hass of
        None \<Rightarrow> (Inl KeyError, None, [])
      | Some st0 \<Rightarrow>
          (let ls0 = (case config_data of None \<Rightarrow> [] | Some cd \<Rightarrow> lights static_devices);
               sw0 = (case config_data of None \<Rightarrow> [] | Some cd \<Rightarrow> switches static_devices);
               st1 = st0\<lparr>CONF_LIGHT := Some ls0, CONF_SWITCH := Some sw0\<rparr>;
               retry =
                 (case config_data of
                    None \<Rightarrow> Inr st1
                  | Some cd \<Rightarrow>
                      (case ed_retry_delay cd of
                         None \<Rightarrow> Inl st1
                       | Some rd \<Rightarrow>
                           (case ed_retry_max_attempts cd of
                              None \<Rightarrow> Inl (st1\<lparr>CONF_RETRY_DELAY := Some rd\<rparr>)
                            | Some rm \<Rightarrow>
                                Inr (st1\<lparr>CONF_RETRY_DELAY := Some rd,
                                         CONF_RETRY_MAX_ATTEMPTS := Some rm\<rparr>))))
           in case retry of
                Inl st \<Rightarrow> (Inl KeyError, Some st, [])
              | Inr st2 \<Rightarrow>
                  (let st3 = st2\<lparr>add_attempt := Some 0\<rparr>;
                       discover =
                         (case config_data of
                            None \<Rightarrow> Some True
                          | Some cd \<Rightarrow> ed_discovery cd)
                   in case discover of
                        None \<Rightarrow> (Inl KeyError, Some st3, [])
                      | Some d \<Rightarrow>
                          (let ls = ls0 @ (if d then lights discovered_devices else []);
                               sw = sw0 @ (if d then switches discovered_devices else []);
                               st4 = st3\<lparr>CONF_LIGHT := Some ls, CONF_SWITCH := Some sw\<rparr>
                           in (Inr True, Some st4,
                               (if ls \<noteq> [] then [''light''] else []) @
                               (if sw \<noteq> [] then [''switch''] else []))))))"

text \<open>
  \<open>async_unload_entry\<close>. \<open>forward_unload\<close> gives, for a platform, what the host's
  \<open>async_forward_entry_unload\<close> returns when it is awaited. The function returns the
  exception it raises or its value, the state it leaves behind, and the platforms it
  forwarded the unload to.
\<close>

definition async_unload_entry ::
  "(string \<Rightarrow> bool) \<Rightarrow> domain_state option \<Rightarrow> (exn + bool) \<times> domain_state option \<times> string list" where
  "async_unload_entry forward_unload hass =
     (case hass of
        None \<Rightarrow> (Inl KeyError, None, [])
      | Some st \<Rightarrow>
          (case CONF_LIGHT st of
             None \<Rightarrow> (Inl KeyError, Some st, [])
           | Some ls \<Rightarrow>
               (let remove_lights = (if ls \<noteq> [] then forward_unload ''light'' else False);
                    calls1 = (if ls \<noteq> [] then [''light''] else [])
                in case CONF_SWITCH st of
                     None \<Rightarrow> (Inl KeyError, Some st, calls1)
                   | Some sw \<Rightarrow>
                       (let remove_switches =
                              (if sw \<noteq> [] then forward_unload ''switch'' else False);
                            calls2 = calls1 @ (if sw \<noteq> [] then [''switch''] else [])
                        in if remove_lights \<or> remove_switches
                           then (Inr True, Some cleared, calls2)
                           else (Inr False, Some st, calls2)))))"

text \<open>
  The states of \<open>hass.data\<close> that the module's three operations can produce, starting
  without an entry for the domain.
\<close>

inductive reachable :: "domain_state option \<Rightarrow> bool" where
  reach_start: "reachable None"
| reach_setup: "reachable h \<Longrightarrow> async_setup conf = (h', flow, r) \<Longrightarrow> reachable h'"
| reach_setup_entry:
    "reachable h \<Longrightarrow> async_setup_entry static discovered cd h = (r, h', fw) \<Longrightarrow> reachable h'"
| reach_unload_entry:
    "reachable h \<Longrightarrow> async_unload_entry forward_unload h = (r, h', calls) \<Longrightarrow> reachable h'"

section \<open>Concrete inputs and notions used by the properties\<close>

text \<open>
  A DHT22 on pin 4 that has not been read yet, an entity with the offsets 0.25 and -0.5
  that currently shows 7, a device that answers both reads, and the usual conversion
  for the parameter \<open>celsius_to_fahrenheit\<close>. For the parameter \<open>float_add\<close> the exact sum
  is taken: the readings and offsets added below are binary fractions, whose float sum
  is exact.
\<close>

definition example_client :: DHTClient where
  "example_client =
     \<lparr>sensor = DHT22, pin = 4, data = Map.empty, name = ''Attic'', last_update = None\<rparr>"

definition example_sensor :: "string \<Rightarrow> unit_of_measure \<Rightarrow> DHTSensor" where
  "example_sensor stype u =
     \<lparr>client_name = ''Attic'', sensor_name = ''Reading'', temp_unit = Some u,
      sensor_type = stype, temperature_offset = 1 / 4, humidity_offset = - 1 / 2,
      state = Some 7, unit_of_measurement = Some u\<rparr>"

definition example_device :: "rat \<Rightarrow> rat \<Rightarrow> dht_device" where
  "example_device h t =
     \<lparr>dev_open = None, dev_humidity = Inr (Some h), dev_temperature = Inr (Some t),
      dev_exit = None\<rparr>"

definition example_c2f :: "rat \<Rightarrow> rat" where
  "example_c2f c = c * 9 / 5 + 32"

definition example_float_add :: "rat \<Rightarrow> rat \<Rightarrow> rat" where
  "example_float_add a b = a + b"

text \<open>The exception that the two reads in the \<open>try\<close> block raise, if any.\<close>

definition read_error :: "dht_device \<Rightarrow> exn option" where
  "read_error dev =
     (case dev_humidity dev of
        Inl e \<Rightarrow> Some e
      | Inr h \<Rightarrow> (case dev_temperature dev of Inl e \<Rightarrow> Some e | Inr t \<Rightarrow> None))"

text \<open>
  Every poll that gets hold of the device reads the humidity first, so the humidity
  reads in a log count the real device reads.
\<close>

definition device_reads :: "event list \<Rightarrow> nat" where
  "device_reads evs = length (filter (\<lambda>e. e = ReadHumidity) evs)"

text \<open>The same client with a temperature of 21 stored by an earlier read.\<close>

definition stale_client :: DHTClient where
  "stale_client = example_client\<lparr>data := [SENSOR_TEMPERATURE \<mapsto> 21]\<rparr>"

text \<open>
  Four devices that misbehave: one whose handle cannot be constructed, one whose
  humidity read raises \<open>RuntimeError\<close>, one whose temperature read raises something else,
  and one that answers both reads and then raises in \<open>exit\<close>.
\<close>

definition unopenable_device :: dht_device where
  "unopenable_device =
     \<lparr>dev_open = Some RuntimeError, dev_humidity = Inr (Some 40),
      dev_temperature = Inr (Some 21), dev_exit = None\<rparr>"

definition glitching_device :: dht_device where
  "glitching_device =
     \<lparr>dev_open = None, dev_humidity = Inl RuntimeError, dev_temperature = Inr (Some 21),
      dev_exit = None\<rparr>"

definition failing_device :: dht_device where
  "failing_device =
     \<lparr>dev_open = None, dev_humidity = Inr (Some 40), dev_temperature = Inl OtherException,
      dev_exit = None\<rparr>"

definition stuck_device :: dht_device where
  "stuck_device =
     \<lparr>dev_open = None, dev_humidity = Inr (Some 40), dev_temperature = Inr (Some 21),
      dev_exit = Some OtherException\<rparr>"

text \<open>
  A board with two pins, a configuration before and after validation (the sensor kind
  is left open), and what the entity built for a monitored condition has to look like.
\<close>

definition example_board :: "string \<rightharpoonup> nat" where
  "example_board = [''D4'' \<mapsto> 4, ''D17'' \<mapsto> 17]"

definition example_raw_config :: "string \<Rightarrow> raw_config" where
  "example_raw_config kind =
     \<lparr>raw_sensor = Some kind, raw_pin = Some ''D4'',
      raw_monitored_conditions = Some (RList [RStr ''temperature'', RStr ''humidity'']),
      raw_name = None, raw_temperature_offset = Some (13 / 50), raw_humidity_offset = None\<rparr>"

definition example_config :: "string \<Rightarrow> config" where
  "example_config kind =
     \<lparr>CONF_SENSOR = kind, CONF_PIN = ''D4'',
      CONF_MONITORED_CONDITIONS = [''temperature'', ''humidity''],
      CONF_NAME = ''DHT Sensor'', CONF_TEMPERATURE_OFFSET = 13 / 50,
      CONF_HUMIDITY_OFFSET = 0\<rparr>"

definition built_for ::
  "(string \<rightharpoonup> string \<times> unit_of_measure option) \<Rightarrow> config \<Rightarrow> string \<Rightarrow> DHTSensor \<Rightarrow> bool" where
  "built_for types cfg variable s =
     (sensor_type s = variable \<and> client_name s = CONF_NAME cfg \<and>
      temperature_offset s = CONF_TEMPERATURE_OFFSET cfg \<and>
      humidity_offset s = CONF_HUMIDITY_OFFSET cfg \<and> state s = None \<and>
      types variable = Some (sensor_name s, unit_of_measurement s) \<and>
      temp_unit s = unit_of_measurement s)"

text \<open>
  The domain state after a setup without YAML configuration that discovered one light,
  the devices discovered, and no devices.
\<close>

definition example_domain :: domain_state where
  "example_domain =
     \<lparr>ATTR_CONFIG = Some None, CONF_LIGHT = Some [''192.168.1.20''], CONF_SWITCH = Some [],
      CONF_RETRY_DELAY = None, CONF_RETRY_MAX_ATTEMPTS = None, add_attempt = Some 0\<rparr>"

definition example_discovered :: SmartDevices where
  "example_discovered = \<lparr>lights = [''192.168.1.20''], switches = []\<rparr>"

definition no_devices :: SmartDevices where
  "no_devices = \<lparr>lights = [], switches = []\<rparr>"

text \<open>The platforms that had devices, in the order in which the unload is forwarded.\<close>

definition unload_calls :: "domain_state \<Rightarrow> string list" where
  "unload_calls st =
     (case CONF_LIGHT st of Some (d # ds) \<Rightarrow> [''light''] | _ \<Rightarrow> []) @
     (case CONF_SWITCH st of Some (d # ds) \<Rightarrow> [''switch''] | _ \<Rightarrow> [])"

section \<open>Properties of the DHT sensor\<close>

subsection \<open>Evaluation on concrete inputs\<close>

lemma floor_rat_numeral: "\<lfloor>numeral a / numeral b :: rat\<rfloor> = numeral a div numeral b"
  by (metis floor_divide_of_int_eq of_int_numeral)

lemma floor_rat_neg_numeral:
  "\<lfloor>- (numeral a / numeral b) :: rat\<rfloor> = - numeral a div numeral b"
  by (metis floor_divide_of_int_eq of_int_numeral of_int_minus minus_divide_left)

lemmas example_defs = example_client_def example_sensor_def example_device_def example_c2f_def
  example_float_add_def

lemmas dht_defs = DHTSensor_update_def DHTClient_update_def DHTClient_update_method_def
  read_and_store_def store_if_truthy_def throttle_open_def update_temperature_def
  update_humidity_def SENSOR_TEMPERATURE_def SENSOR_HUMIDITY_def MIN_TIME_BETWEEN_UPDATES_def

lemmas round_eval = py_round1_def Let_def floor_rat_numeral floor_rat_neg_numeral

lemma example_read:
  "DHTClient_update 0 (example_device h t) example_client =
     (None,
      example_client\<lparr>data := store_if_truthy SENSOR_HUMIDITY (Some h)
                                (store_if_truthy SENSOR_TEMPERATURE (Some t) Map.empty),
                     last_update := Some 0\<rparr>,
      [Open DHT22 4, ReadHumidity, ReadTemperature, Exit])"
  by (simp add: DHTClient_update_def DHTClient_update_method_def read_and_store_def
      throttle_open_def example_defs)

subsection \<open>Temperature shown in Celsius\<close>

text \<open>
  C1. A temperature entity whose display unit is Celsius: when the client's update has
  returned and the client's data then hold the raw temperature \<open>t\<close> with
  \<open>-20 \<le> t < 80\<close>, \<open>DHTSensor.update\<close> raises nothing and leaves the entity showing
  \<open>round(t + temperature_offset, 1)\<close>, the float sum of reading and offset rounded to one
  decimal; nothing else of the entity changes.
\<close>

theorem dht_temperature_celsius:
  assumes "DHTClient_update now dev c = (None, c', evs)"
    and "sensor_type s = SENSOR_TEMPERATURE"
    and "temp_unit s = Some TEMP_CELSIUS"
    and "data c' SENSOR_TEMPERATURE = Some t"
    and "- 20 \<le> t" and "t < 80"
  shows "DHTSensor_update float_add c2f now dev s c =
           (None, s\<lparr>state := Some (py_round1 (float_add t (temperature_offset s)))\<rparr>, c',
            evs @ [LogTemperature t (temperature_offset s)])"
  using assms by (simp add: DHTSensor_update_def update_temperature_def)

text \<open>A reading of 21.5 with offset 0.25 is shown as 21.8, the tie going to the even digit.\<close>

theorem dht_temperature_celsius_witness:
  "DHTSensor_update example_float_add example_c2f 0 (example_device 40 (43 / 2))
       (example_sensor SENSOR_TEMPERATURE TEMP_CELSIUS) example_client =
     (None, (example_sensor SENSOR_TEMPERATURE TEMP_CELSIUS)\<lparr>state := Some (109 / 5)\<rparr>,
      example_client\<lparr>data := [SENSOR_TEMPERATURE \<mapsto> 43 / 2, SENSOR_HUMIDITY \<mapsto> 40],
                     last_update := Some 0\<rparr>,
      [Open DHT22 4, ReadHumidity, ReadTemperature, Exit, LogTemperature (43 / 2) (1 / 4)])"
proof -
  let ?s = "example_sensor SENSOR_TEMPERATURE TEMP_CELSIUS"
  let ?c' = "example_client\<lparr>data := [SENSOR_TEMPERATURE \<mapsto> 43 / 2, SENSOR_HUMIDITY \<mapsto> 40],
                             last_update := Some 0\<rparr>"
  have call: "DHTClient_update 0 (example_device 40 (43 / 2)) example_client =
      (None, ?c', [Open DHT22 4, ReadHumidity, ReadTemperature, Exit])"
    by (simp add: example_read store_if_truthy_def)
  have r: "py_round1 (example_float_add (43 / 2) (temperature_offset ?s)) = 109 / 5"
    by (simp add: example_defs round_eval)
  have "DHTSensor_update example_float_add example_c2f 0 (example_device 40 (43 / 2)) ?s example_client =
      (None, ?s\<lparr>state := Some (py_round1 (example_float_add (43 / 2) (temperature_offset ?s)))\<rparr>, ?c',
       [Open DHT22 4, ReadHumidity, ReadTemperature, Exit] @
       [LogTemperature (43 / 2) (temperature_offset ?s)])"
    by (rule dht_temperature_celsius [OF call])
       (simp_all add: example_defs SENSOR_TEMPERATURE_def SENSOR_HUMIDITY_def)
  with r show ?thesis by (simp add: example_sensor_def)
qed

subsection \<open>Temperature shown in Fahrenheit\<close>

text \<open>
  C2. A temperature entity whose display unit is Fahrenheit: when the client's data hold
  the raw Celsius temperature \<open>t\<close> with \<open>-20 \<le> t < 80\<close>, the entity ends up showing
  \<open>round(celsius_to_fahrenheit(t), 1)\<close>, computed from the raw value; the value with the
  offset is overwritten, so the state shown is the same for every temperature offset.
\<close>

theorem dht_temperature_fahrenheit:
  assumes "DHTClient_update now dev c = (None, c', evs)"
    and "sensor_type s = SENSOR_TEMPERATURE"
    and "temp_unit s = Some TEMP_FAHRENHEIT"
    and "data c' SENSOR_TEMPERATURE = Some t"
    and "- 20 \<le> t" and "t < 80"
  shows "DHTSensor_update float_add c2f now dev s c =
           (None, s\<lparr>state := Some (py_round1 (c2f t))\<rparr>, c',
            evs @ [LogTemperature t (temperature_offset s)]) \<and>
         state (fst (snd (DHTSensor_update float_add c2f now dev (s\<lparr>temperature_offset := off\<rparr>) c))) =
           Some (py_round1 (c2f t))"
  using assms by (simp add: DHTSensor_update_def update_temperature_def)

text \<open>21.5 degrees Celsius are shown as 70.7, with the offset 0.25 and with the offset 50.\<close>

theorem dht_temperature_fahrenheit_witness:
  "DHTSensor_update example_float_add example_c2f 0 (example_device 40 (43 / 2))
       (example_sensor SENSOR_TEMPERATURE TEMP_FAHRENHEIT) example_client =
     (None, (example_sensor SENSOR_TEMPERATURE TEMP_FAHRENHEIT)\<lparr>state := Some (707 / 10)\<rparr>,
      example_client\<lparr>data := [SENSOR_TEMPERATURE \<mapsto> 43 / 2, SENSOR_HUMIDITY \<mapsto> 40],
                     last_update := Some 0\<rparr>,
      [Open DHT22 4, ReadHumidity, ReadTemperature, Exit, LogTemperature (43 / 2) (1 / 4)]) \<and>
   state (fst (snd (DHTSensor_update example_float_add example_c2f 0 (example_device 40 (43 / 2))
       ((example_sensor SENSOR_TEMPERATURE TEMP_FAHRENHEIT)\<lparr>temperature_offset := 50\<rparr>)
       example_client))) = Some (707 / 10)"
proof -
  let ?s = "example_sensor SENSOR_TEMPERATURE TEMP_FAHRENHEIT"
  let ?c' = "example_client\<lparr>data := [SENSOR_TEMPERATURE \<mapsto> 43 / 2, SENSOR_HUMIDITY \<mapsto> 40],
                             last_update := Some 0\<rparr>"
  have call: "DHTClient_update 0 (example_device 40 (43 / 2)) example_client =
      (None, ?c', [Open DHT22 4, ReadHumidity, ReadTemperature, Exit])"
    by (simp add: example_read store_if_truthy_def)
  have r: "py_round1 (example_c2f (43 / 2)) = 707 / 10"
    by (simp add: example_defs round_eval)
  have "DHTSensor_update example_float_add example_c2f 0 (example_device 40 (43 / 2)) ?s example_client =
      (None, ?s\<lparr>state := Some (py_round1 (example_c2f (43 / 2)))\<rparr>, ?c',
       [Open DHT22 4, ReadHumidity, ReadTemperature, Exit] @
       [LogTemperature (43 / 2) (temperature_offset ?s)]) \<and>
     state (fst (snd (DHTSensor_update example_float_add example_c2f 0 (example_device 40 (43 / 2))
        (?s\<lparr>temperature_offset := 50\<rparr>) example_client))) =
       Some (py_round1 (example_c2f (43 / 2)))"
    by (rule dht_temperature_fahrenheit [OF call])
       (simp_all add: example_defs SENSOR_TEMPERATURE_def SENSOR_HUMIDITY_def)
  with r show ?thesis by (simp add: example_sensor_def)
qed

subsection \<open>Humidity\<close>

lemma metric_names_differ: "SENSOR_HUMIDITY \<noteq> SENSOR_TEMPERATURE"
  by (simp add: SENSOR_TEMPERATURE_def SENSOR_HUMIDITY_def)

text \<open>
  C3. A humidity entity: when the client's update has returned and the client's data then
  hold the raw humidity \<open>h\<close> with \<open>0 \<le> h \<le> 100\<close>, the entity ends up showing
  \<open>round(h + humidity_offset, 1)\<close>, the float sum of reading and offset rounded to one
  decimal.
\<close>

theorem dht_humidity:
  assumes "DHTClient_update now dev c = (None, c', evs)"
    and "sensor_type s = SENSOR_HUMIDITY"
    and "data c' SENSOR_HUMIDITY = Some h"
    and "0 \<le> h" and "h \<le> 100"
  shows "DHTSensor_update float_add c2f now dev s c =
           (None, s\<lparr>state := Some (py_round1 (float_add h (humidity_offset s)))\<rparr>, c',
            evs @ [LogHumidity h (humidity_offset s)])"
  using assms by (simp add: DHTSensor_update_def update_humidity_def metric_names_differ)

text \<open>A humidity of 40.125 with offset -0.5 is shown as 39.6.\<close>

theorem dht_humidity_witness:
  "DHTSensor_update example_float_add example_c2f 0 (example_device (321 / 8) (43 / 2))
       (example_sensor SENSOR_HUMIDITY PERCENTAGE) example_client =
     (None, (example_sensor SENSOR_HUMIDITY PERCENTAGE)\<lparr>state := Some (198 / 5)\<rparr>,
      example_client\<lparr>data := [SENSOR_TEMPERATURE \<mapsto> 43 / 2, SENSOR_HUMIDITY \<mapsto> 321 / 8],
                     last_update := Some 0\<rparr>,
      [Open DHT22 4, ReadHumidity, ReadTemperature, Exit, LogHumidity (321 / 8) (- 1 / 2)])"
proof -
  let ?s = "example_sensor SENSOR_HUMIDITY PERCENTAGE"
  let ?c' = "example_client\<lparr>data := [SENSOR_TEMPERATURE \<mapsto> 43 / 2,
                                      SENSOR_HUMIDITY \<mapsto> 321 / 8],
                             last_update := Some 0\<rparr>"
  have call: "DHTClient_update 0 (example_device (321 / 8) (43 / 2)) example_client =
      (None, ?c', [Open DHT22 4, ReadHumidity, ReadTemperature, Exit])"
    by (simp add: example_read store_if_truthy_def)
  have r: "py_round1 (example_float_add (321 / 8) (humidity_offset ?s)) = 198 / 5"
    by (simp add: example_defs round_eval)
  have "DHTSensor_update example_float_add example_c2f 0
          (example_device (321 / 8) (43 / 2)) ?s example_client =
      (None,
       ?s\<lparr>state := Some (py_round1 (example_float_add (321 / 8) (humidity_offset ?s)))\<rparr>,
       ?c',
       [Open DHT22 4, ReadHumidity, ReadTemperature, Exit] @
       [LogHumidity (321 / 8) (humidity_offset ?s)])"
    by (rule dht_humidity [OF call])
       (simp_all add: example_defs SENSOR_TEMPERATURE_def SENSOR_HUMIDITY_def)
  with r show ?thesis by (simp add: example_sensor_def)
qed

subsection \<open>Readings outside the accepted range\<close>

text \<open>
  C4. When the reading the entity extracts for its metric lies outside the accepted range
  (a temperature below -20 or at least 80, a humidity below 0 or above 100),
  \<open>DHTSensor.update\<close> raises nothing and returns the entity as it was, so the state shown
  before is still shown.
\<close>

theorem dht_out_of_range_keeps_state:
  assumes "DHTClient_update now dev c = (None, c', evs)"
    and "(sensor_type s = SENSOR_TEMPERATURE \<and> data c' SENSOR_TEMPERATURE = Some v \<and>
          (v < - 20 \<or> 80 \<le> v)) \<or>
         (sensor_type s = SENSOR_HUMIDITY \<and> data c' SENSOR_HUMIDITY = Some v \<and>
          (v < 0 \<or> 100 < v))"
  shows "fst (DHTSensor_update float_add c2f now dev s c) = None \<and>
         fst (snd (DHTSensor_update float_add c2f now dev s c)) = s"
  using assms
  by (auto simp add: DHTSensor_update_def update_humidity_def update_temperature_def
      metric_names_differ)

text \<open>A temperature of 85 and a humidity of 101 both leave the 7 that was shown.\<close>

theorem dht_out_of_range_keeps_state_witness:
  "state (example_sensor SENSOR_TEMPERATURE TEMP_CELSIUS) = Some 7 \<and>
   fst (DHTSensor_update example_float_add example_c2f 0 (example_device 40 85)
          (example_sensor SENSOR_TEMPERATURE TEMP_CELSIUS) example_client) = None \<and>
   fst (snd (DHTSensor_update example_float_add example_c2f 0 (example_device 40 85)
          (example_sensor SENSOR_TEMPERATURE TEMP_CELSIUS) example_client)) =
     example_sensor SENSOR_TEMPERATURE TEMP_CELSIUS \<and>
   fst (DHTSensor_update example_float_add example_c2f 0 (example_device 101 20)
          (example_sensor SENSOR_HUMIDITY PERCENTAGE) example_client) = None \<and>
   fst (snd (DHTSensor_update example_float_add example_c2f 0 (example_device 101 20)
          (example_sensor SENSOR_HUMIDITY PERCENTAGE) example_client)) =
     example_sensor SENSOR_HUMIDITY PERCENTAGE"
proof -
  have t: "(sensor_type (example_sensor SENSOR_TEMPERATURE TEMP_CELSIUS) = SENSOR_TEMPERATURE \<and>
        data (example_client\<lparr>data := store_if_truthy SENSOR_HUMIDITY (Some 40)
                                (store_if_truthy SENSOR_TEMPERATURE (Some 85) Map.empty),
                     last_update := Some 0\<rparr>) SENSOR_TEMPERATURE = Some 85 \<and>
        ((85::rat) < - 20 \<or> (80::rat) \<le> 85)) \<or>
       (sensor_type (example_sensor SENSOR_TEMPERATURE TEMP_CELSIUS) = SENSOR_HUMIDITY \<and>
        data (example_client\<lparr>data := store_if_truthy SENSOR_HUMIDITY (Some 40)
                                (store_if_truthy SENSOR_TEMPERATURE (Some 85) Map.empty),
                     last_update := Some 0\<rparr>) SENSOR_HUMIDITY = Some 85 \<and>
        ((85::rat) < 0 \<or> (100::rat) < 85))"
    by (simp add: example_defs store_if_truthy_def SENSOR_TEMPERATURE_def SENSOR_HUMIDITY_def)
  have h: "(sensor_type (example_sensor SENSOR_HUMIDITY PERCENTAGE) = SENSOR_TEMPERATURE \<and>
        data (example_client\<lparr>data := store_if_truthy SENSOR_HUMIDITY (Some 101)
                                (store_if_truthy SENSOR_TEMPERATURE (Some 20) Map.empty),
                     last_update := Some 0\<rparr>) SENSOR_TEMPERATURE = Some 101 \<and>
        ((101::rat) < - 20 \<or> (80::rat) \<le> 101)) \<or>
       (sensor_type (example_sensor SENSOR_HUMIDITY PERCENTAGE) = SENSOR_HUMIDITY \<and>
        data (example_client\<lparr>data := store_if_truthy SENSOR_HUMIDITY (Some 101)
                                (store_if_truthy SENSOR_TEMPERATURE (Some 20) Map.empty),
                     last_update := Some 0\<rparr>) SENSOR_HUMIDITY = Some 101 \<and>
        ((101::rat) < 0 \<or> (100::rat) < 101))"
    by (simp add: example_defs store_if_truthy_def SENSOR_TEMPERATURE_def SENSOR_HUMIDITY_def)
  show ?thesis
    using dht_out_of_range_keeps_state [OF example_read t,
        where float_add = example_float_add and c2f = example_c2f]
      dht_out_of_range_keeps_state [OF example_read h,
        where float_add = example_float_add and c2f = example_c2f]
    by (simp add: example_sensor_def)
qed

subsection \<open>What the client stores\<close>

lemma store_if_truthy_other: "k \<noteq> key \<Longrightarrow> store_if_truthy key r d k = d k"
  by (simp add: store_if_truthy_def split: option.splits)

lemma store_if_truthy_same:
  "store_if_truthy key r d key = (case r of None \<Rightarrow> d key | Some v \<Rightarrow> if v \<noteq> 0 then Some v else d key)"
  by (simp add: store_if_truthy_def split: option.splits)

lemma update_method_data:
  "DHTClient_update_method dev c = (r, c', evs) \<Longrightarrow>
   data c' = data c \<or>
   (\<exists>h t. dev_open dev = None \<and> dev_humidity dev = Inr h \<and> dev_temperature dev = Inr t \<and>
          data c' = store_if_truthy SENSOR_HUMIDITY h (store_if_truthy SENSOR_TEMPERATURE t (data c)))"
  by (auto simp add: DHTClient_update_method_def read_and_store_def
      split: option.splits sum.splits)

lemma update_data:
  "DHTClient_update now dev c = (r, c', evs) \<Longrightarrow>
   data c' = data c \<or>
   (\<exists>h t. dev_open dev = None \<and> dev_humidity dev = Inr h \<and> dev_temperature dev = Inr t \<and>
          data c' = store_if_truthy SENSOR_HUMIDITY h (store_if_truthy SENSOR_TEMPERATURE t (data c)))"
proof (cases "throttle_open MIN_TIME_BETWEEN_UPDATES now (last_update c)")
  case False
  assume "DHTClient_update now dev c = (r, c', evs)"
  with False show ?thesis by (simp add: DHTClient_update_def)
next
  case True
  assume a: "DHTClient_update now dev c = (r, c', evs)"
  obtain r0 c0 evs0 where m: "DHTClient_update_method dev c = (r0, c0, evs0)"
    by (cases "DHTClient_update_method dev c") auto
  from a True m have "data c' = data c0"
    by (cases r0) (auto simp add: DHTClient_update_def)
  with update_method_data [OF m] show ?thesis by simp
qed

lemma update_both_read:
  assumes "DHTClient_update now dev c = (r, c', evs)"
    and "throttle_open MIN_TIME_BETWEEN_UPDATES now (last_update c)"
    and "dev_open dev = None" and "dev_humidity dev = Inr h" and "dev_temperature dev = Inr t"
  shows "r = dev_exit dev \<and>
         evs = [Open (sensor c) (pin c), ReadHumidity, ReadTemperature, Exit] \<and>
         data c' = store_if_truthy SENSOR_HUMIDITY h
                     (store_if_truthy SENSOR_TEMPERATURE t (data c))"
  using assms
  by (cases "dev_exit dev")
     (auto simp add: DHTClient_update_def DHTClient_update_method_def read_and_store_def)

text \<open>
  C5. \<open>DHTClient.update\<close> changes the entry of a metric in the client's data only to a
  reading that is truthy: an entry that differs after the call holds the non-zero number
  the device returned for that metric. A reading of exactly zero leaves the entry as it
  was. When the call is let through and both reads return, the data are exactly the old
  data with the truthy readings stored, the only events are the hardware accesses, so
  nothing is logged about a dropped reading, and the only exception that can leave the
  call is the one \<open>exit\<close> raises.
\<close>

theorem dht_client_stores_truthy_only:
  assumes "DHTClient_update now dev c = (r, c', evs)"
  shows "(data c' SENSOR_TEMPERATURE \<noteq> data c SENSOR_TEMPERATURE \<longrightarrow>
            (\<exists>v. v \<noteq> 0 \<and> dev_temperature dev = Inr (Some v) \<and>
                 data c' SENSOR_TEMPERATURE = Some v)) \<and>
         (data c' SENSOR_HUMIDITY \<noteq> data c SENSOR_HUMIDITY \<longrightarrow>
            (\<exists>v. v \<noteq> 0 \<and> dev_humidity dev = Inr (Some v) \<and>
                 data c' SENSOR_HUMIDITY = Some v)) \<and>
         (dev_temperature dev = Inr (Some 0) \<longrightarrow>
            data c' SENSOR_TEMPERATURE = data c SENSOR_TEMPERATURE) \<and>
         (dev_humidity dev = Inr (Some 0) \<longrightarrow>
            data c' SENSOR_HUMIDITY = data c SENSOR_HUMIDITY) \<and>
         (throttle_open MIN_TIME_BETWEEN_UPDATES now (last_update c) \<and> dev_open dev = None \<and>
          dev_humidity dev = Inr h \<and> dev_temperature dev = Inr t \<longrightarrow>
            r = dev_exit dev \<and>
            evs = [Open (sensor c) (pin c), ReadHumidity, ReadTemperature, Exit] \<and>
            data c' = store_if_truthy SENSOR_HUMIDITY h
                        (store_if_truthy SENSOR_TEMPERATURE t (data c)))"
proof -
  have ne: "SENSOR_TEMPERATURE \<noteq> SENSOR_HUMIDITY"
    using metric_names_differ by simp
  have last: "throttle_open MIN_TIME_BETWEEN_UPDATES now (last_update c) \<and> dev_open dev = None \<and>
          dev_humidity dev = Inr h \<and> dev_temperature dev = Inr t \<longrightarrow>
            r = dev_exit dev \<and>
            evs = [Open (sensor c) (pin c), ReadHumidity, ReadTemperature, Exit] \<and>
            data c' = store_if_truthy SENSOR_HUMIDITY h
                        (store_if_truthy SENSOR_TEMPERATURE t (data c))"
    using update_both_read [OF assms] by blast
  from update_data [OF assms] show ?thesis
  proof
    assume "data c' = data c"
    with last show ?thesis by simp
  next
    assume "\<exists>h t. dev_open dev = None \<and> dev_humidity dev = Inr h \<and> dev_temperature dev = Inr t \<and>
          data c' = store_if_truthy SENSOR_HUMIDITY h (store_if_truthy SENSOR_TEMPERATURE t (data c))"
    then obtain h' t' where d: "dev_humidity dev = Inr h'" "dev_temperature dev = Inr t'"
      "data c' = store_if_truthy SENSOR_HUMIDITY h' (store_if_truthy SENSOR_TEMPERATURE t' (data c))"
      by blast
    have T: "data c' SENSOR_TEMPERATURE =
        (case t' of None \<Rightarrow> data c SENSOR_TEMPERATURE
         | Some v \<Rightarrow> if v \<noteq> 0 then Some v else data c SENSOR_TEMPERATURE)"
      using d(3) ne by (simp add: store_if_truthy_other store_if_truthy_same)
    have H: "data c' SENSOR_HUMIDITY =
        (case h' of None \<Rightarrow> data c SENSOR_HUMIDITY
         | Some v \<Rightarrow> if v \<noteq> 0 then Some v else data c SENSOR_HUMIDITY)"
      using d(3) store_if_truthy_other [OF metric_names_differ, of t' "data c"]
      by (simp add: store_if_truthy_same split: option.splits)
    have 1: "data c' SENSOR_TEMPERATURE \<noteq> data c SENSOR_TEMPERATURE \<longrightarrow>
            (\<exists>v. v \<noteq> 0 \<and> dev_temperature dev = Inr (Some v) \<and>
                 data c' SENSOR_TEMPERATURE = Some v)"
      using T d(2) by (cases t') (auto split: if_splits)
    have 2: "data c' SENSOR_HUMIDITY \<noteq> data c SENSOR_HUMIDITY \<longrightarrow>
            (\<exists>v. v \<noteq> 0 \<and> dev_humidity dev = Inr (Some v) \<and>
                 data c' SENSOR_HUMIDITY = Some v)"
      using H d(1) by (cases h') (auto split: if_splits)
    have 3: "dev_temperature dev = Inr (Some 0) \<longrightarrow>
            data c' SENSOR_TEMPERATURE = data c SENSOR_TEMPERATURE"
      using T d(2) by auto
    have 4: "dev_humidity dev = Inr (Some 0) \<longrightarrow>
            data c' SENSOR_HUMIDITY = data c SENSOR_HUMIDITY"
      using H d(1) by auto
    from 1 2 3 4 last show ?thesis by blast
  qed
qed

text \<open>
  With a zero temperature and a humidity of 40, the stored temperature 21 stays and the
  humidity is stored; nothing is logged.
\<close>

theorem dht_client_stores_truthy_only_witness:
  "DHTClient_update 0 (example_device 40 0) stale_client =
     (None,
      stale_client\<lparr>data := [SENSOR_TEMPERATURE \<mapsto> 21, SENSOR_HUMIDITY \<mapsto> 40],
                   last_update := Some 0\<rparr>,
      [Open DHT22 4, ReadHumidity, ReadTemperature, Exit])"
proof -
  obtain r c' evs where u: "DHTClient_update 0 (example_device 40 0) stale_client = (r, c', evs)"
    by (cases "DHTClient_update 0 (example_device 40 0) stale_client") auto
  have "throttle_open MIN_TIME_BETWEEN_UPDATES 0 (last_update stale_client) \<and>
      dev_open (example_device 40 0) = None \<and>
      dev_humidity (example_device 40 0) = Inr (Some 40) \<and>
      dev_temperature (example_device 40 0) = Inr (Some 0) \<and>
      dev_exit (example_device 40 0) = None"
    by (simp add: stale_client_def example_defs throttle_open_def)
  with dht_client_stores_truthy_only [OF u, of "Some 40" "Some 0"]
  have "r = None \<and> evs = [Open (sensor stale_client) (pin stale_client), ReadHumidity, ReadTemperature, Exit] \<and>
     data c' = store_if_truthy SENSOR_HUMIDITY (Some 40)
                        (store_if_truthy SENSOR_TEMPERATURE (Some 0) (data stale_client))"
    by simp
  moreover have "c' = stale_client\<lparr>data := data c', last_update := Some 0\<rparr>"
    using u by (auto simp add: DHTClient_update_def DHTClient_update_method_def read_and_store_def
        throttle_open_def stale_client_def example_defs)
  ultimately have "r = None \<and> evs = [Open DHT22 4, ReadHumidity, ReadTemperature, Exit] \<and>
      c' = stale_client\<lparr>data := [SENSOR_TEMPERATURE \<mapsto> 21, SENSOR_HUMIDITY \<mapsto> 40],
                   last_update := Some 0\<rparr>"
    by (simp add: stale_client_def example_defs store_if_truthy_def)
  with u show ?thesis by simp
qed

subsection \<open>Errors while reading\<close>

lemma update_method_opened:
  assumes "dev_open dev = None"
  shows "DHTClient_update_method dev c =
     (dev_exit dev,
      (case read_error dev of
         None \<Rightarrow> c\<lparr>data := store_if_truthy SENSOR_HUMIDITY (projr (dev_humidity dev))
                        (store_if_truthy SENSOR_TEMPERATURE (projr (dev_temperature dev)) (data c))\<rparr>
       | Some e \<Rightarrow> c),
      Open (sensor c) (pin c) # snd (read_and_store dev (data c)) @
      (case read_error dev of
         None \<Rightarrow> []
       | Some e \<Rightarrow> [if e = RuntimeError
                    then LogDebug (''Unexpected value from DHT sensor: '' @ name c)
                    else LogException (''Error updating DHT sensor: '' @ name c)]) @ [Exit])"
  using assms
  by (simp add: DHTClient_update_method_def read_and_store_def read_error_def
      split: sum.splits)

lemma reads_are_no_log:
  "e \<in> set (snd (read_and_store dev d)) \<Longrightarrow> e = ReadHumidity \<or> e = ReadTemperature"
  by (auto simp add: read_and_store_def split: sum.splits)

lemma update_method_failed:
  "dev_open dev = Some e \<Longrightarrow>
   DHTClient_update_method dev c = (Some e, c, [Open (sensor c) (pin c)])"
  by (simp add: DHTClient_update_method_def)

text \<open>
  C7, as amended. \<open>DHTClient.update\<close> propagates no error raised by the reads of humidity
  and temperature. On a call that is let through and has constructed the handle, \<open>exit\<close>
  is called on every path, exactly once and as the last thing the call does, and the
  call raises what \<open>exit\<close> raises and nothing else, whatever the reads did; a
  \<open>RuntimeError\<close> raised by a read is logged at debug level, any other exception raised
  by a read is logged with \<open>_LOGGER.exception\<close>, and in both cases the data stay as they
  were. An exception raised while the handle is constructed, before the \<open>try\<close> block,
  always reaches the caller; no handle exists then and none is released. A throttled
  call does nothing.
\<close>

theorem dht_client_update_read_errors_caught:
  assumes "DHTClient_update now dev c = (r, c', evs)"
  shows "(dev_open dev = None \<and> dev_exit dev = None \<longrightarrow> r = None) \<and>
         (throttle_open MIN_TIME_BETWEEN_UPDATES now (last_update c) \<and> dev_open dev = None \<longrightarrow>
            r = dev_exit dev \<and> hd evs = Open (sensor c) (pin c) \<and> last evs = Exit \<and>
            length (filter (\<lambda>e. e = Exit) evs) = 1) \<and>
         (throttle_open MIN_TIME_BETWEEN_UPDATES now (last_update c) \<and> dev_open dev = None \<and>
          read_error dev = Some RuntimeError \<longrightarrow>
            LogDebug (''Unexpected value from DHT sensor: '' @ name c) \<in> set evs \<and>
            (\<forall>m. LogException m \<notin> set evs) \<and> data c' = data c) \<and>
         (\<forall>e. throttle_open MIN_TIME_BETWEEN_UPDATES now (last_update c) \<and> dev_open dev = None \<and>
          read_error dev = Some e \<and> e \<noteq> RuntimeError \<longrightarrow>
            LogException (''Error updating DHT sensor: '' @ name c) \<in> set evs \<and>
            (\<forall>m. LogDebug m \<notin> set evs) \<and> data c' = data c) \<and>
         (\<forall>e. throttle_open MIN_TIME_BETWEEN_UPDATES now (last_update c) \<and>
          dev_open dev = Some e \<longrightarrow>
            r = Some e \<and> c' = c \<and> evs = [Open (sensor c) (pin c)]) \<and>
         (\<not> throttle_open MIN_TIME_BETWEEN_UPDATES now (last_update c) \<longrightarrow>
            r = None \<and> c' = c \<and> evs = [])"
proof (cases "throttle_open MIN_TIME_BETWEEN_UPDATES now (last_update c)")
  case False
  with assms show ?thesis by (simp add: DHTClient_update_def)
next
  case True
  show ?thesis
  proof (cases "dev_open dev")
    case (Some e)
    with assms True show ?thesis
      by (auto simp add: DHTClient_update_def update_method_failed)
  next
    case None
    note m = update_method_opened [OF None, of c]
    from assms True m have r: "r = dev_exit dev" and
      evs: "evs = Open (sensor c) (pin c) # snd (read_and_store dev (data c)) @
        (case read_error dev of
           None \<Rightarrow> []
         | Some e \<Rightarrow> [if e = RuntimeError
                      then LogDebug (''Unexpected value from DHT sensor: '' @ name c)
                      else LogException (''Error updating DHT sensor: '' @ name c)]) @ [Exit]" and
      c': "data c' = data (case read_error dev of
         None \<Rightarrow> c\<lparr>data := store_if_truthy SENSOR_HUMIDITY (projr (dev_humidity dev))
                        (store_if_truthy SENSOR_TEMPERATURE (projr (dev_temperature dev)) (data c))\<rparr>
       | Some e \<Rightarrow> c)"
      by (cases "dev_exit dev"; auto simp add: DHTClient_update_def)+
    have noexit: "Exit \<notin> set (snd (read_and_store dev (data c)))"
      using reads_are_no_log by blast
    have nolog: "\<And>m. LogException m \<notin> set (snd (read_and_store dev (data c))) \<and>
        LogDebug m \<notin> set (snd (read_and_store dev (data c)))"
      using reads_are_no_log by blast
    have cnt: "length (filter (\<lambda>e. e = Exit) evs) = 1"
      using noexit unfolding evs
      by (auto simp add: filter_empty_conv split: option.splits)
    have shape: "hd evs = Open (sensor c) (pin c) \<and> last evs = Exit"
      unfolding evs by simp
    have dbg: "read_error dev = Some RuntimeError \<longrightarrow>
        LogDebug (''Unexpected value from DHT sensor: '' @ name c) \<in> set evs \<and>
        (\<forall>m. LogException m \<notin> set evs) \<and> data c' = data c"
      using nolog c' unfolding evs by auto
    have exc: "\<forall>e. read_error dev = Some e \<and> e \<noteq> RuntimeError \<longrightarrow>
        LogException (''Error updating DHT sensor: '' @ name c) \<in> set evs \<and>
        (\<forall>m. LogDebug m \<notin> set evs) \<and> data c' = data c"
      using nolog c' unfolding evs by auto
    from r cnt shape dbg exc None True show ?thesis by simp
  qed
qed

text \<open>A \<open>RuntimeError\<close> from the humidity read and another exception from the temperature read.\<close>

theorem dht_client_update_read_errors_caught_witness:
  "fst (DHTClient_update 0 glitching_device example_client) = None \<and>
   LogDebug ''Unexpected value from DHT sensor: Attic''
     \<in> set (snd (snd (DHTClient_update 0 glitching_device example_client))) \<and>
   last (snd (snd (DHTClient_update 0 glitching_device example_client))) = Exit \<and>
   fst (DHTClient_update 0 failing_device example_client) = None \<and>
   LogException ''Error updating DHT sensor: Attic''
     \<in> set (snd (snd (DHTClient_update 0 failing_device example_client))) \<and>
   last (snd (snd (DHTClient_update 0 failing_device example_client))) = Exit"
proof -
  let ?X = "DHTClient_update 0 glitching_device example_client"
  let ?Y = "DHTClient_update 0 failing_device example_client"
  have x: "?X = (fst ?X, fst (snd ?X), snd (snd ?X))" by simp
  have y: "?Y = (fst ?Y, fst (snd ?Y), snd (snd ?Y))" by simp
  have px: "dev_open glitching_device = None \<and> dev_exit glitching_device = None \<and>
      throttle_open MIN_TIME_BETWEEN_UPDATES 0 (last_update example_client) \<and>
      read_error glitching_device = Some RuntimeError \<and> name example_client = ''Attic''"
    by (simp add: glitching_device_def example_client_def throttle_open_def read_error_def)
  have py: "dev_open failing_device = None \<and> dev_exit failing_device = None \<and>
      throttle_open MIN_TIME_BETWEEN_UPDATES 0 (last_update example_client) \<and>
      read_error failing_device = Some OtherException \<and> OtherException \<noteq> RuntimeError \<and>
      name example_client = ''Attic''"
    by (simp add: failing_device_def example_client_def throttle_open_def read_error_def)
  from dht_client_update_read_errors_caught [OF x] px
  have 1: "fst ?X = None \<and> LogDebug ''Unexpected value from DHT sensor: Attic'' \<in> set (snd (snd ?X)) \<and>
     last (snd (snd ?X)) = Exit"
    by simp
  from dht_client_update_read_errors_caught [OF y] py
  have 2: "fst ?Y = None \<and> LogException ''Error updating DHT sensor: Attic'' \<in> set (snd (snd ?Y)) \<and>
     last (snd (snd ?Y)) = Exit"
    by simp
  from 1 2 show ?thesis by simp
qed

text \<open>
  C7 as stated, that \<open>DHTClient.update\<close> never propagates an error, fails when
  constructing the handle raises: the exception leaves the method, and no \<open>exit\<close>
  follows.
\<close>

theorem dht_client_update_open_error_propagates:
  "DHTClient_update 0 unopenable_device example_client =
     (Some RuntimeError, example_client, [Open DHT22 4])"
  by (simp add: DHTClient_update_def DHTClient_update_method_def throttle_open_def
      unopenable_device_def example_client_def)

subsection \<open>The throttle\<close>

lemma update_method_reads:
  assumes "DHTClient_update_method dev c = (r, c', evs)"
  shows "last_update c' = last_update c \<and> device_reads evs \<le> 1 \<and>
         (r = None \<longrightarrow> device_reads evs = 1)"
  using assms
  by (auto simp add: DHTClient_update_method_def read_and_store_def device_reads_def
      split: option.splits sum.splits)

lemma update_cases:
  assumes "DHTClient_update now dev c = (r, c', evs)"
  shows "(\<not> throttle_open MIN_TIME_BETWEEN_UPDATES now (last_update c) \<and>
            r = None \<and> c' = c \<and> evs = []) \<or>
         (throttle_open MIN_TIME_BETWEEN_UPDATES now (last_update c) \<and>
            r \<noteq> None \<and> last_update c' = last_update c \<and> device_reads evs \<le> 1) \<or>
         (throttle_open MIN_TIME_BETWEEN_UPDATES now (last_update c) \<and>
            r = None \<and> last_update c' = Some now \<and> device_reads evs = 1)"
proof (cases "throttle_open MIN_TIME_BETWEEN_UPDATES now (last_update c)")
  case False
  with assms show ?thesis by (simp add: DHTClient_update_def)
next
  case True
  obtain r0 c0 evs0 where m: "DHTClient_update_method dev c = (r0, c0, evs0)"
    by (cases "DHTClient_update_method dev c") auto
  from assms True m update_method_reads [OF m] show ?thesis
    by (cases r0) (auto simp add: DHTClient_update_def)
qed

text \<open>
  C6, as amended. Two calls of a client's throttled update, the second one at most
  \<open>MIN_TIME_BETWEEN_UPDATES\<close> after the first: when the first call returns without
  raising, the two calls together read the device at most once. When the first call
  reads the device and returns, the second one returns at once: no event at all, hence
  no hardware access, and the client is as the first call left it. The same holds for
  both calls when they fall into the interval after an earlier read at \<open>w\<close>.
\<close>

theorem dht_client_throttle:
  assumes "DHTClient_update t1 dev1 c = (r1, c1, evs1)"
    and "DHTClient_update t2 dev2 c1 = (r2, c2, evs2)"
    and "t1 \<le> t2"
    and "t2 - t1 \<le> MIN_TIME_BETWEEN_UPDATES"
  shows "(r1 = None \<longrightarrow> device_reads evs1 + device_reads evs2 \<le> 1) \<and>
         (r1 = None \<and> device_reads evs1 = 1 \<longrightarrow> r2 = None \<and> c2 = c1 \<and> evs2 = []) \<and>
         (\<forall>w. last_update c = Some w \<and> t2 - w \<le> MIN_TIME_BETWEEN_UPDATES \<longrightarrow>
              evs1 = [] \<and> r2 = None \<and> c2 = c \<and> evs2 = [])"
proof -
  note a = update_cases [OF assms(1)]
  note b = update_cases [OF assms(2)]
  have first_read: "r1 = None \<and> device_reads evs1 = 1 \<longrightarrow> r2 = None \<and> c2 = c1 \<and> evs2 = []"
  proof
    assume "r1 = None \<and> device_reads evs1 = 1"
    with a have "last_update c1 = Some t1" by (auto simp add: device_reads_def)
    with assms(4) have "\<not> throttle_open MIN_TIME_BETWEEN_UPDATES t2 (last_update c1)"
      by (simp add: throttle_open_def)
    with b show "r2 = None \<and> c2 = c1 \<and> evs2 = []" by blast
  qed
  have total: "r1 = None \<longrightarrow> device_reads evs1 + device_reads evs2 \<le> 1"
  proof
    assume r1: "r1 = None"
    show "device_reads evs1 + device_reads evs2 \<le> 1"
    proof (cases "device_reads evs1 = 1")
      case True
      with r1 first_read show ?thesis by (simp add: device_reads_def)
    next
      case False
      with a r1 have "device_reads evs1 = 0" by (auto simp add: device_reads_def)
      moreover from b have "device_reads evs2 \<le> 1" by (auto simp add: device_reads_def)
      ultimately show ?thesis by simp
    qed
  qed
  have earlier: "\<forall>w. last_update c = Some w \<and> t2 - w \<le> MIN_TIME_BETWEEN_UPDATES \<longrightarrow>
              evs1 = [] \<and> r2 = None \<and> c2 = c \<and> evs2 = []"
  proof (intro allI impI)
    fix w
    assume w: "last_update c = Some w \<and> t2 - w \<le> MIN_TIME_BETWEEN_UPDATES"
    with assms(3) have "\<not> throttle_open MIN_TIME_BETWEEN_UPDATES t1 (last_update c)"
      by (simp add: throttle_open_def)
    with a have 1: "c1 = c \<and> evs1 = []" by blast
    with w have "\<not> throttle_open MIN_TIME_BETWEEN_UPDATES t2 (last_update c1)"
      by (simp add: throttle_open_def)
    with b 1 show "evs1 = [] \<and> r2 = None \<and> c2 = c \<and> evs2 = []" by blast
  qed
  from total first_read earlier show ?thesis by blast
qed

text \<open>A read at time 0 and a call 20 seconds later, which does nothing.\<close>

theorem dht_client_throttle_witness:
  "DHTClient_update 0 (example_device 40 21) example_client =
     (None,
      example_client\<lparr>data := [SENSOR_TEMPERATURE \<mapsto> 21, SENSOR_HUMIDITY \<mapsto> 40],
                     last_update := Some 0\<rparr>,
      [Open DHT22 4, ReadHumidity, ReadTemperature, Exit]) \<and>
   DHTClient_update 20000000 (example_device 41 22)
     (example_client\<lparr>data := [SENSOR_TEMPERATURE \<mapsto> 21, SENSOR_HUMIDITY \<mapsto> 40],
                     last_update := Some 0\<rparr>) =
     (None,
      example_client\<lparr>data := [SENSOR_TEMPERATURE \<mapsto> 21, SENSOR_HUMIDITY \<mapsto> 40],
                     last_update := Some 0\<rparr>,
      [])"
proof -
  let ?c1 = "example_client\<lparr>data := [SENSOR_TEMPERATURE \<mapsto> 21, SENSOR_HUMIDITY \<mapsto> 40],
                     last_update := Some 0\<rparr>"
  let ?Y = "DHTClient_update 20000000 (example_device 41 22) ?c1"
  have x: "DHTClient_update 0 (example_device 40 21) example_client =
      (None, ?c1, [Open DHT22 4, ReadHumidity, ReadTemperature, Exit])"
    by (simp add: example_read store_if_truthy_def)
  have y: "?Y = (fst ?Y, fst (snd ?Y), snd (snd ?Y))" by simp
  have t: "(0::int) \<le> 20000000" "(20000000::int) - 0 \<le> MIN_TIME_BETWEEN_UPDATES"
    by (simp_all add: MIN_TIME_BETWEEN_UPDATES_def)
  have n: "device_reads [Open DHT22 4, ReadHumidity, ReadTemperature, Exit] = 1"
    by (simp add: device_reads_def)
  from dht_client_throttle [OF x y t] n
  have "fst ?Y = None \<and> fst (snd ?Y) = ?c1 \<and> snd (snd ?Y) = []" by blast
  then have "?Y = (None, ?c1, [])" by (metis y)
  with x show ?thesis by simp
qed

text \<open>
  C6 as stated fails in two ways. After a read at time 0, a call at 29 seconds is
  throttled and a call at 31 seconds, two seconds after it, reads the device: the second
  of two calls within one interval does access the hardware. And when \<open>exit\<close> raises
  after a read, no time is recorded, so a call one microsecond later reads the device
  again: two reads within one interval.
\<close>

theorem dht_client_throttle_second_call_reads:
  "DHTClient_update 29000000 (example_device 41 22) (example_client\<lparr>last_update := Some 0\<rparr>) =
     (None, example_client\<lparr>last_update := Some 0\<rparr>, []) \<and>
   snd (snd (DHTClient_update 31000000 (example_device 41 22)
               (example_client\<lparr>last_update := Some 0\<rparr>))) =
     [Open DHT22 4, ReadHumidity, ReadTemperature, Exit] \<and>
   DHTClient_update 0 stuck_device example_client =
     (Some OtherException,
      example_client\<lparr>data := [SENSOR_TEMPERATURE \<mapsto> 21, SENSOR_HUMIDITY \<mapsto> 40]\<rparr>,
      [Open DHT22 4, ReadHumidity, ReadTemperature, Exit]) \<and>
   snd (snd (DHTClient_update 1 (example_device 41 22)
               (example_client\<lparr>data := [SENSOR_TEMPERATURE \<mapsto> 21, SENSOR_HUMIDITY \<mapsto> 40]\<rparr>))) =
     [Open DHT22 4, ReadHumidity, ReadTemperature, Exit]"
  by (simp add: DHTClient_update_def DHTClient_update_method_def read_and_store_def
      store_if_truthy_def throttle_open_def MIN_TIME_BETWEEN_UPDATES_def example_client_def
      example_device_def stuck_device_def)

section \<open>Properties of the platform setup\<close>

lemma validate_each_keys:
  "validate_each (vol_In container) vs = Some conds \<Longrightarrow> \<forall>v \<in> set conds. container v \<noteq> None"
proof (induction vs arbitrary: conds)
  case Nil
  then show ?case by simp
next
  case (Cons v vs)
  then show ?case
    by (auto simp add: vol_In_def split: option.splits raw.splits if_splits)
qed

lemma schema_keys:
  assumes "PLATFORM_SCHEMA rc = Some cfg"
  shows "\<forall>v \<in> set (CONF_MONITORED_CONDITIONS cfg). SENSOR_TYPES None v \<noteq> None"
proof -
  from assms obtain conds where
    v: "validate_each (vol_In (SENSOR_TYPES None))
          (ensure_list (with_default (RList []) (raw_monitored_conditions rc))) = Some conds"
    and c: "CONF_MONITORED_CONDITIONS cfg = conds"
    by (auto simp add: PLATFORM_SCHEMA_def Let_def split: option.splits if_splits)
  from validate_each_keys [OF v] c show ?thesis by simp
qed

lemma sensor_types_keys: "SENSOR_TYPES a v \<noteq> None \<longleftrightarrow> SENSOR_TYPES b v \<noteq> None"
  by (simp add: SENSOR_TYPES_def)

lemma build_sensors_all:
  "\<forall>v \<in> set conds. types v \<noteq> None \<Longrightarrow>
   snd (build_sensors types (CONF_NAME cfg) (CONF_TEMPERATURE_OFFSET cfg)
          (CONF_HUMIDITY_OFFSET cfg) conds) = False \<and>
   list_all2 (built_for types cfg) conds
     (fst (build_sensors types (CONF_NAME cfg) (CONF_TEMPERATURE_OFFSET cfg)
          (CONF_HUMIDITY_OFFSET cfg) conds))"
proof (induction conds)
  case Nil
  then show ?case by simp
next
  case (Cons v conds)
  then obtain label u where t: "types v = Some (label, u)" by auto
  from Cons have ih:
    "snd (build_sensors types (CONF_NAME cfg) (CONF_TEMPERATURE_OFFSET cfg)
          (CONF_HUMIDITY_OFFSET cfg) conds) = False"
    "list_all2 (built_for types cfg) conds
     (fst (build_sensors types (CONF_NAME cfg) (CONF_TEMPERATURE_OFFSET cfg)
          (CONF_HUMIDITY_OFFSET cfg) conds))"
    by simp_all
  obtain dev caught where bs:
    "build_sensors types (CONF_NAME cfg) (CONF_TEMPERATURE_OFFSET cfg)
       (CONF_HUMIDITY_OFFSET cfg) conds = (dev, caught)"
    by (cases "build_sensors types (CONF_NAME cfg) (CONF_TEMPERATURE_OFFSET cfg)
       (CONF_HUMIDITY_OFFSET cfg) conds")
  with ih have "caught = False" and "list_all2 (built_for types cfg) conds dev"
    by simp_all
  moreover have "built_for types cfg v
      \<lparr>client_name = CONF_NAME cfg, sensor_name = label, temp_unit = u, sensor_type = v,
       temperature_offset = CONF_TEMPERATURE_OFFSET cfg,
       humidity_offset = CONF_HUMIDITY_OFFSET cfg, state = None, unit_of_measurement = u\<rparr>"
    using t by (simp add: built_for_def)
  ultimately show ?case
    using t bs by (simp add: DHTSensor_init_def)
qed

text \<open>
  C10, as amended. In every configuration the platform schema accepts, each monitored
  condition is a key of \<open>SENSOR_TYPES\<close>, so \<open>setup_platform\<close> never runs its \<open>KeyError\<close>
  handler. When the sensor kind is one of the supported ones and the board has the pin,
  the client is created and exactly one entity per monitored condition, in order, is
  handed to \<open>add_entities\<close>, each built from that condition and the configured name and
  offsets; nothing is logged and no value is returned. For an unsupported kind the
  function logs an error, returns \<open>False\<close> and creates and registers nothing, whatever the
  pin is; for a supported kind on a pin the board lacks it raises \<open>AttributeError\<close>.
\<close>

theorem setup_platform_one_sensor_per_condition:
  assumes "PLATFORM_SCHEMA rc = Some cfg"
  shows "(\<forall>v \<in> set (CONF_MONITORED_CONDITIONS cfg). SENSOR_TYPES (Some u) v \<noteq> None) \<and>
         (available_sensors (CONF_SENSOR cfg) = None \<longrightarrow>
            setup_platform board u cfg =
              Inr \<lparr>returned = Some False, client = None, added = None,
                   key_error_caught = False,
                   setup_log = [LogError ''DHT sensor type is not supported'']\<rparr>) \<and>
         (available_sensors (CONF_SENSOR cfg) \<noteq> None \<and> board (CONF_PIN cfg) = None \<longrightarrow>
            setup_platform board u cfg = Inl AttributeError) \<and>
         (\<forall>kind p.
            available_sensors (CONF_SENSOR cfg) = Some kind \<and> board (CONF_PIN cfg) = Some p \<longrightarrow>
            (case setup_platform board u cfg of
               Inl e \<Rightarrow> False
             | Inr res \<Rightarrow>
                 returned res = None \<and> \<not> key_error_caught res \<and> setup_log res = [] \<and>
                 client res = Some \<lparr>sensor = kind, pin = p, data = Map.empty,
                                     name = CONF_NAME cfg, last_update = None\<rparr> \<and>
                 (case added res of
                    None \<Rightarrow> False
                  | Some dev \<Rightarrow>
                      list_all2 (built_for (SENSOR_TYPES (Some u)) cfg)
                        (CONF_MONITORED_CONDITIONS cfg) dev)))"
proof -
  have keys: "\<forall>v \<in> set (CONF_MONITORED_CONDITIONS cfg). SENSOR_TYPES (Some u) v \<noteq> None"
    using schema_keys [OF assms] sensor_types_keys [of "Some u" _ None] by blast
  note b = build_sensors_all [OF keys, of cfg]
  obtain dev caught where bs: "build_sensors (SENSOR_TYPES (Some u)) (CONF_NAME cfg)
      (CONF_TEMPERATURE_OFFSET cfg) (CONF_HUMIDITY_OFFSET cfg) (CONF_MONITORED_CONDITIONS cfg) =
      (dev, caught)"
    by (cases "build_sensors (SENSOR_TYPES (Some u)) (CONF_NAME cfg)
      (CONF_TEMPERATURE_OFFSET cfg) (CONF_HUMIDITY_OFFSET cfg) (CONF_MONITORED_CONDITIONS cfg)")
  with b have c: "caught = False"
    and d: "list_all2 (built_for (SENSOR_TYPES (Some u)) cfg) (CONF_MONITORED_CONDITIONS cfg) dev"
    by simp_all
  have 2: "available_sensors (CONF_SENSOR cfg) = None \<longrightarrow>
            setup_platform board u cfg =
              Inr \<lparr>returned = Some False, client = None, added = None,
                   key_error_caught = False,
                   setup_log = [LogError ''DHT sensor type is not supported'']\<rparr>"
    by (simp add: setup_platform_def Let_def)
  have 3: "available_sensors (CONF_SENSOR cfg) \<noteq> None \<and> board (CONF_PIN cfg) = None \<longrightarrow>
            setup_platform board u cfg = Inl AttributeError"
    by (auto simp add: setup_platform_def DHTClient_init_def Let_def)
  have 4: "\<forall>kind p.
            available_sensors (CONF_SENSOR cfg) = Some kind \<and> board (CONF_PIN cfg) = Some p \<longrightarrow>
            (case setup_platform board u cfg of
               Inl e \<Rightarrow> False
             | Inr res \<Rightarrow>
                 returned res = None \<and> \<not> key_error_caught res \<and> setup_log res = [] \<and>
                 client res = Some \<lparr>sensor = kind, pin = p, data = Map.empty,
                                     name = CONF_NAME cfg, last_update = None\<rparr> \<and>
                 (case added res of
                    None \<Rightarrow> False
                  | Some dev \<Rightarrow>
                      list_all2 (built_for (SENSOR_TYPES (Some u)) cfg)
                        (CONF_MONITORED_CONDITIONS cfg) dev))"
    using bs c d
    by (auto simp add: setup_platform_def DHTClient_init_def Let_def)
  from keys 2 3 4 show ?thesis by blast
qed

lemma example_schema: "PLATFORM_SCHEMA (example_raw_config kind) = Some (example_config kind)"
  by (simp add: PLATFORM_SCHEMA_def example_raw_config_def example_config_def ensure_list_def
      with_default_def vol_In_def SENSOR_TYPES_def SENSOR_TEMPERATURE_def SENSOR_HUMIDITY_def
      in_range_def DEFAULT_NAME_def)

text \<open>A DHT22 on pin D4 monitoring both metrics.\<close>

theorem setup_platform_one_sensor_per_condition_witness:
  "PLATFORM_SCHEMA (example_raw_config ''DHT22'') = Some (example_config ''DHT22'') \<and>
   CONF_MONITORED_CONDITIONS (example_config ''DHT22'') = [''temperature'', ''humidity''] \<and>
   (case setup_platform example_board TEMP_CELSIUS (example_config ''DHT22'') of
      Inl e \<Rightarrow> False
    | Inr res \<Rightarrow>
        (case added res of
           None \<Rightarrow> False
         | Some dev \<Rightarrow>
             list_all2 (built_for (SENSOR_TYPES (Some TEMP_CELSIUS)) (example_config ''DHT22''))
               (CONF_MONITORED_CONDITIONS (example_config ''DHT22'')) dev))"
proof -
  have "available_sensors (CONF_SENSOR (example_config ''DHT22'')) = Some DHT22 \<and>
      example_board (CONF_PIN (example_config ''DHT22'')) = Some 4"
    by (simp add: example_config_def available_sensors_def example_board_def)
  moreover have "CONF_MONITORED_CONDITIONS (example_config ''DHT22'') =
      [''temperature'', ''humidity'']"
    by (simp add: example_config_def)
  moreover note example_schema [of "''DHT22''"]
    setup_platform_one_sensor_per_condition [OF example_schema [of "''DHT22''"],
      where u = TEMP_CELSIUS and board = example_board]
  ultimately show ?thesis by (simp split: sum.splits option.splits)
qed

text \<open>
  C10 as stated, for every accepted configuration, fails for a sensor kind the schema
  accepts (any string) and \<open>setup_platform\<close> does not support: two conditions are
  monitored and no entity is constructed or registered.
\<close>

theorem setup_platform_unsupported_sensor:
  "PLATFORM_SCHEMA (example_raw_config ''DHT33'') = Some (example_config ''DHT33'') \<and>
   CONF_MONITORED_CONDITIONS (example_config ''DHT33'') = [''temperature'', ''humidity''] \<and>
   setup_platform example_board TEMP_CELSIUS (example_config ''DHT33'') =
     Inr \<lparr>returned = Some False, client = None, added = None, key_error_caught = False,
          setup_log = [LogError ''DHT sensor type is not supported'']\<rparr>"
  by (simp add: example_schema)
     (simp add: setup_platform_def example_config_def available_sensors_def)

section \<open>Properties of the TP-Link module\<close>

lemma cleared_no_light: "CONF_LIGHT st = Some ls \<Longrightarrow> st \<noteq> cleared"
  by (auto simp add: cleared_def)

text \<open>
  C8. On a domain state that holds the two device lists, \<open>async_unload_entry\<close> forwards
  the unload to the platforms that had devices and returns success exactly when at
  least one of these forwarded unloads reports success. The domain state is cleared
  exactly in that case; otherwise, also when both lists are empty and nothing is
  forwarded, it returns failure and leaves the domain state as it was.
\<close>

theorem async_unload_entry_success:
  assumes "CONF_LIGHT st = Some ls" and "CONF_SWITCH st = Some sw"
  shows "(case async_unload_entry forward_unload (Some st) of
            (r, h', calls) \<Rightarrow>
              calls = unload_calls st \<and>
              r = Inr (\<exists>p \<in> set calls. forward_unload p) \<and>
              h' = Some (if \<exists>p \<in> set calls. forward_unload p then cleared else st) \<and>
              (h' = Some cleared) = (r = Inr True) \<and>
              (ls = [] \<and> sw = [] \<longrightarrow> r = Inr False \<and> h' = Some st))"
proof -
  have ne: "st \<noteq> cleared" using assms(1) by (rule cleared_no_light)
  show ?thesis
  proof (cases ls)
    case Nil
    note l = this
    show ?thesis
    proof (cases sw)
      case Nil
      with l assms ne show ?thesis
        by (auto simp add: async_unload_entry_def unload_calls_def Let_def)
    next
      case (Cons d ds)
      with l assms ne show ?thesis
        by (auto simp add: async_unload_entry_def unload_calls_def Let_def)
    qed
  next
    case (Cons e es)
    note l = this
    show ?thesis
    proof (cases sw)
      case Nil
      with l assms ne show ?thesis
        by (auto simp add: async_unload_entry_def unload_calls_def Let_def)
    next
      case (Cons d ds)
      with l assms ne show ?thesis
        by (auto simp add: async_unload_entry_def unload_calls_def Let_def)
    qed
  qed
qed

text \<open>
  One light: a successful unload clears the state, a failing one leaves it. No device:
  failure, although the host would report success.
\<close>

theorem async_unload_entry_success_witness:
  "async_unload_entry (\<lambda>p. p = ''light'') (Some example_domain) =
     (Inr True, Some cleared, [''light'']) \<and>
   async_unload_entry (\<lambda>p. False) (Some example_domain) =
     (Inr False, Some example_domain, [''light'']) \<and>
   async_unload_entry (\<lambda>p. True)
       (Some (example_domain\<lparr>CONF_LIGHT := Some []\<rparr>)) =
     (Inr False, Some (example_domain\<lparr>CONF_LIGHT := Some []\<rparr>), [])"
proof -
  have l: "CONF_LIGHT example_domain = Some [''192.168.1.20'']"
    and s: "CONF_SWITCH example_domain = Some []"
    by (simp_all add: example_domain_def)
  have l': "CONF_LIGHT (example_domain\<lparr>CONF_LIGHT := Some []\<rparr>) = Some []"
    and s': "CONF_SWITCH (example_domain\<lparr>CONF_LIGHT := Some []\<rparr>) = Some []"
    by (simp_all add: example_domain_def)
  have c: "unload_calls example_domain = [''light'']"
    "unload_calls (example_domain\<lparr>CONF_LIGHT := Some []\<rparr>) = []"
    by (simp_all add: unload_calls_def example_domain_def)
  from async_unload_entry_success [OF l s, of "\<lambda>p. p = ''light''"] c
  have 1: "async_unload_entry (\<lambda>p. p = ''light'') (Some example_domain) =
     (Inr True, Some cleared, [''light''])"
    by (auto split: prod.splits)
  from async_unload_entry_success [OF l s, of "\<lambda>p. False"] c
  have 2: "async_unload_entry (\<lambda>p. False) (Some example_domain) =
     (Inr False, Some example_domain, [''light''])"
    by (auto split: prod.splits)
  from async_unload_entry_success [OF l' s', of "\<lambda>p. True"] c
  have 3: "async_unload_entry (\<lambda>p. True) (Some (example_domain\<lparr>CONF_LIGHT := Some []\<rparr>)) =
     (Inr False, Some (example_domain\<lparr>CONF_LIGHT := Some []\<rparr>), [])"
    by (auto split: prod.splits)
  from 1 2 3 show ?thesis by simp
qed

subsection \<open>The attempt counter\<close>

lemma setup_entry_stores_lists:
  assumes "async_setup_entry static discovered cd h = (Inr b, h', fw)"
  shows "\<exists>st ls sw. h' = Some st \<and> CONF_LIGHT st = Some ls \<and> CONF_SWITCH st = Some sw \<and>
           add_attempt st = Some 0"
  using assms
  by (auto simp add: async_setup_entry_def Let_def split: option.splits sum.splits)

lemma setup_entry_add_attempt:
  assumes "async_setup_entry static discovered cd (Some st) = (r, h', fw)"
  shows "\<exists>st'. h' = Some st' \<and>
           (add_attempt st' = Some 0 \<or> (r = Inl KeyError \<and> add_attempt st' = add_attempt st))"
  using assms
  by (auto simp add: async_setup_entry_def Let_def split: option.splits sum.splits)

lemma unload_entry_add_attempt:
  assumes "async_unload_entry forward_unload (Some st) = (r, h', calls)"
  shows "h' = Some st \<or> (h' = Some cleared \<and> r = Inr True)"
  using assms
  by (auto simp add: async_unload_entry_def Let_def split: option.splits if_splits)

lemma reachable_add_attempt:
  "reachable h \<Longrightarrow> h = Some st \<Longrightarrow> add_attempt st = None \<or> add_attempt st = Some 0"
proof (induction arbitrary: st rule: reachable.induct)
  case reach_start
  then show ?case by simp
next
  case (reach_setup h conf h' flow r)
  then show ?case by (auto simp add: async_setup_def cleared_def)
next
  case (reach_setup_entry h static discovered cd r h' fw)
  show ?case
  proof (cases h)
    case None
    with reach_setup_entry show ?thesis by (simp add: async_setup_entry_def)
  next
    case (Some st0)
    with reach_setup_entry.IH have "add_attempt st0 = None \<or> add_attempt st0 = Some 0"
      by simp
    moreover from reach_setup_entry.hyps(2) Some
    have "\<exists>st'. h' = Some st' \<and>
           (add_attempt st' = Some 0 \<or> (r = Inl KeyError \<and> add_attempt st' = add_attempt st0))"
      using setup_entry_add_attempt by simp
    ultimately show ?thesis using reach_setup_entry.prems by auto
  qed
next
  case (reach_unload_entry h forward_unload r h' calls)
  show ?case
  proof (cases h)
    case None
    with reach_unload_entry show ?thesis by (simp add: async_unload_entry_def)
  next
    case (Some st0)
    with reach_unload_entry.IH have "add_attempt st0 = None \<or> add_attempt st0 = Some 0"
      by simp
    moreover from reach_unload_entry.hyps(2) Some
    have "h' = Some st0 \<or> (h' = Some cleared \<and> r = Inr True)"
      using unload_entry_add_attempt by simp
    ultimately show ?thesis using reach_unload_entry.prems by (auto simp add: cleared_def)
  qed
qed

lemma unload_ignores_add_attempt:
  "fst (async_unload_entry forward_unload (Some (st\<lparr>add_attempt := x\<rparr>))) =
     fst (async_unload_entry forward_unload (Some st)) \<and>
   snd (snd (async_unload_entry forward_unload (Some (st\<lparr>add_attempt := x\<rparr>)))) =
     snd (snd (async_unload_entry forward_unload (Some st))) \<and>
   map_option (\<lambda>s. s\<lparr>add_attempt := y\<rparr>)
       (fst (snd (async_unload_entry forward_unload (Some (st\<lparr>add_attempt := x\<rparr>))))) =
     map_option (\<lambda>s. s\<lparr>add_attempt := y\<rparr>)
       (fst (snd (async_unload_entry forward_unload (Some st))))"
  by (simp add: async_unload_entry_def Let_def split: option.splits)

lemma setup_entry_ignores_add_attempt:
  "fst (async_setup_entry static discovered cd (Some (st\<lparr>add_attempt := x\<rparr>))) =
     fst (async_setup_entry static discovered cd (Some st)) \<and>
   snd (snd (async_setup_entry static discovered cd (Some (st\<lparr>add_attempt := x\<rparr>)))) =
     snd (snd (async_setup_entry static discovered cd (Some st))) \<and>
   map_option (\<lambda>s. s\<lparr>add_attempt := y\<rparr>)
       (fst (snd (async_setup_entry static discovered cd (Some (st\<lparr>add_attempt := x\<rparr>))))) =
     map_option (\<lambda>s. s\<lparr>add_attempt := y\<rparr>)
       (fst (snd (async_setup_entry static discovered cd (Some st))))"
  by (simp add: async_setup_entry_def Let_def split: option.splits sum.splits)

text \<open>
  C9. In every state that \<open>async_setup\<close>, \<open>async_setup_entry\<close> and \<open>async_unload_entry\<close> can
  produce, \<open>add_attempt\<close> is either absent (before the entry is set up, or after the
  domain state was cleared or replaced) or 0. A setup of the entry that returns has set
  it to 0, and one that raises has left it alone or set it to 0; an unload leaves the
  whole state alone or clears all of it. Neither operation consults the counter: with any
  other value in its place, both return the same value, forward to the same platforms
  and leave the same state, up to the counter itself.
\<close>

theorem add_attempt_stays_zero:
  assumes "reachable h" and "h = Some st"
  shows "(add_attempt st = None \<or> add_attempt st = Some 0) \<and>
         (\<forall>static discovered cd r h' fw.
            async_setup_entry static discovered cd h = (r, h', fw) \<longrightarrow>
              (\<exists>st'. h' = Some st' \<and>
                 (if r = Inr True then add_attempt st' = Some 0
                  else add_attempt st' = add_attempt st \<or> add_attempt st' = Some 0))) \<and>
         (\<forall>forward_unload r h' calls.
            async_unload_entry forward_unload h = (r, h', calls) \<longrightarrow>
              h' = Some st \<or> (h' = Some cleared \<and> r = Inr True)) \<and>
         (\<forall>forward_unload x y.
            fst (async_unload_entry forward_unload (Some (st\<lparr>add_attempt := x\<rparr>))) =
              fst (async_unload_entry forward_unload h) \<and>
            snd (snd (async_unload_entry forward_unload (Some (st\<lparr>add_attempt := x\<rparr>)))) =
              snd (snd (async_unload_entry forward_unload h)) \<and>
            map_option (\<lambda>s. s\<lparr>add_attempt := y\<rparr>)
                (fst (snd (async_unload_entry forward_unload
                             (Some (st\<lparr>add_attempt := x\<rparr>))))) =
              map_option (\<lambda>s. s\<lparr>add_attempt := y\<rparr>)
                (fst (snd (async_unload_entry forward_unload h)))) \<and>
         (\<forall>static discovered cd x y.
            fst (async_setup_entry static discovered cd (Some (st\<lparr>add_attempt := x\<rparr>))) =
              fst (async_setup_entry static discovered cd h) \<and>
            snd (snd (async_setup_entry static discovered cd (Some (st\<lparr>add_attempt := x\<rparr>)))) =
              snd (snd (async_setup_entry static discovered cd h)) \<and>
            map_option (\<lambda>s. s\<lparr>add_attempt := y\<rparr>)
                (fst (snd (async_setup_entry static discovered cd
                             (Some (st\<lparr>add_attempt := x\<rparr>))))) =
              map_option (\<lambda>s. s\<lparr>add_attempt := y\<rparr>)
                (fst (snd (async_setup_entry static discovered cd h))))"
proof -
  have 1: "add_attempt st = None \<or> add_attempt st = Some 0"
    using assms by (rule reachable_add_attempt)
  have 2: "\<forall>static discovered cd r h' fw.
            async_setup_entry static discovered cd h = (r, h', fw) \<longrightarrow>
              (\<exists>st'. h' = Some st' \<and>
                 (if r = Inr True then add_attempt st' = Some 0
                  else add_attempt st' = add_attempt st \<or> add_attempt st' = Some 0))"
  proof (intro allI impI)
    fix static discovered cd r h' fw
    assume a: "async_setup_entry static discovered cd h = (r, h', fw)"
    with assms(2) setup_entry_add_attempt [of static discovered cd st r h' fw]
    show "\<exists>st'. h' = Some st' \<and>
                 (if r = Inr True then add_attempt st' = Some 0
                  else add_attempt st' = add_attempt st \<or> add_attempt st' = Some 0)"
      by auto
  qed
  have 3: "\<forall>forward_unload r h' calls.
            async_unload_entry forward_unload h = (r, h', calls) \<longrightarrow>
              h' = Some st \<or> (h' = Some cleared \<and> r = Inr True)"
    using assms(2) unload_entry_add_attempt by blast
  have 4: "\<forall>forward_unload x y.
            fst (async_unload_entry forward_unload (Some (st\<lparr>add_attempt := x\<rparr>))) =
              fst (async_unload_entry forward_unload h) \<and>
            snd (snd (async_unload_entry forward_unload (Some (st\<lparr>add_attempt := x\<rparr>)))) =
              snd (snd (async_unload_entry forward_unload h)) \<and>
            map_option (\<lambda>s. s\<lparr>add_attempt := y\<rparr>)
                (fst (snd (async_unload_entry forward_unload
                             (Some (st\<lparr>add_attempt := x\<rparr>))))) =
              map_option (\<lambda>s. s\<lparr>add_attempt := y\<rparr>)
                (fst (snd (async_unload_entry forward_unload h)))"
    unfolding assms(2) by (intro allI) (rule unload_ignores_add_attempt)
  have 5: "\<forall>static discovered cd x y.
            fst (async_setup_entry static discovered cd (Some (st\<lparr>add_attempt := x\<rparr>))) =
              fst (async_setup_entry static discovered cd h) \<and>
            snd (snd (async_setup_entry static discovered cd (Some (st\<lparr>add_attempt := x\<rparr>)))) =
              snd (snd (async_setup_entry static discovered cd h)) \<and>
            map_option (\<lambda>s. s\<lparr>add_attempt := y\<rparr>)
                (fst (snd (async_setup_entry static discovered cd
                             (Some (st\<lparr>add_attempt := x\<rparr>))))) =
              map_option (\<lambda>s. s\<lparr>add_attempt := y\<rparr>)
                (fst (snd (async_setup_entry static discovered cd h)))"
    unfolding assms(2) by (intro allI) (rule setup_entry_ignores_add_attempt)
  show ?thesis
    by (intro conjI) (rule 1, rule 2, rule 3, rule 4, rule 5)
qed

text \<open>The state after \<open>async_setup\<close> and a setup of the entry that discovers one light.\<close>

lemma example_domain_reachable: "reachable (Some example_domain)"
proof -
  have a: "async_setup None = (Some (cleared\<lparr>ATTR_CONFIG := Some None\<rparr>), False, True)"
    by (simp add: async_setup_def)
  have b: "async_setup_entry no_devices example_discovered None
      (Some (cleared\<lparr>ATTR_CONFIG := Some None\<rparr>)) =
      (Inr True, Some example_domain, [''light''])"
    by (simp add: async_setup_entry_def Let_def no_devices_def example_discovered_def
        example_domain_def cleared_def)
  from reach_setup_entry [OF reach_setup [OF reach_start a] b] show ?thesis .
qed

theorem add_attempt_stays_zero_witness:
  "reachable (Some example_domain) \<and> add_attempt example_domain = Some 0 \<and>
   (\<exists>st'. fst (snd (async_setup_entry no_devices example_discovered None
                     (Some example_domain))) = Some st' \<and> add_attempt st' = Some 0) \<and>
   fst (async_unload_entry (\<lambda>p. True) (Some (example_domain\<lparr>add_attempt := Some 5\<rparr>))) =
     fst (async_unload_entry (\<lambda>p. True) (Some example_domain))"
proof -
  let ?X = "async_setup_entry no_devices example_discovered None (Some example_domain)"
  note t = add_attempt_stays_zero [OF example_domain_reachable refl]
  have x: "?X = (fst ?X, fst (snd ?X), snd (snd ?X))" by simp
  have r: "fst ?X = Inr True"
    by (simp add: async_setup_entry_def Let_def)
  from t have "\<forall>static discovered cd r h' fw.
      async_setup_entry static discovered cd (Some example_domain) = (r, h', fw) \<longrightarrow>
        (\<exists>st'. h' = Some st' \<and>
           (if r = Inr True then add_attempt st' = Some 0
            else add_attempt st' = add_attempt example_domain \<or> add_attempt st' = Some 0))"
    by (elim conjE)
  then have "\<exists>st'. fst (snd ?X) = Some st' \<and>
           (if fst ?X = Inr True then add_attempt st' = Some 0
            else add_attempt st' = add_attempt example_domain \<or> add_attempt st' = Some 0)"
    using x by blast
  with r have "\<exists>st'. fst (snd ?X) = Some st' \<and> add_attempt st' = Some 0"
    by simp
  moreover have "add_attempt example_domain = Some 0"
    by (simp add: example_domain_def)
  moreover from t have "\<forall>forward_unload x y.
      fst (async_unload_entry forward_unload (Some (example_domain\<lparr>add_attempt := x\<rparr>))) =
        fst (async_unload_entry forward_unload (Some example_domain)) \<and>
      snd (snd (async_unload_entry forward_unload (Some (example_domain\<lparr>add_attempt := x\<rparr>)))) =
        snd (snd (async_unload_entry forward_unload (Some example_domain))) \<and>
      map_option (\<lambda>s. s\<lparr>add_attempt := y\<rparr>)
          (fst (snd (async_unload_entry forward_unload
                       (Some (example_domain\<lparr>add_attempt := x\<rparr>))))) =
        map_option (\<lambda>s. s\<lparr>add_attempt := y\<rparr>)
          (fst (snd (async_unload_entry forward_unload (Some example_domain))))"
    by (elim conjE)
  then have "fst (async_unload_entry (\<lambda>p. True) (Some (example_domain\<lparr>add_attempt := Some 5\<rparr>))) =
     fst (async_unload_entry (\<lambda>p. True) (Some example_domain))"
    by (elim allE conjE)
  ultimately show ?thesis using example_domain_reachable by blast
qed

end
